theory Spec2Isabelle
  imports Complex_Main
begin

section \<open>The learner of nsm/learner.py\<close>

text \<open>
  The theory embeds the class \<open>Learner\<close> of \<^verbatim>\<open>src/nsm/learner.py\<close>: its training loop
  \<open>train\<close>, the checkpoint publication \<open>update_model_to_actors\<close> and \<open>push_new_model\<close>,
  and the two registration methods.

  Everything the learner does to the world outside its own fields is a call to a
  collaborator (the two optimizers, autograd, \<open>torch.save\<close>, \<open>os.remove\<close>, the checkpoint
  queue, the evaluator's message variable, the program cache). Each such call is
  appended to a log, tagged with the value of \<open>train_iter\<close> at the call, so that the order
  of the calls is part of the state. Parameters and gradients are not represented: the
  calls that change them are in the log. The summary writer and the \<open>print\<close> calls are
  left out, except for the arithmetic in their arguments that can raise. The batches a run
  receives are a list; the actors and the evaluator that read the queue and the message
  variable are outside the model.

  Tensors are lists of reals: rounding of floating-point arithmetic is not modelled, the
  one special value kept is the NaN that \<open>mean\<close> returns on an empty tensor.
\<close>

subsection \<open>Exceptions\<close>

datatype error =
    ZeroDivisionError
  | UnboundLocalError
  | AttributeError
  | ValueError
  | RuntimeError
  | OSError
  | FileNotFoundError
  | ForwardError

subsection \<open>Scalars and one-dimensional tensors\<close>

datatype fval = NaN | Num real

fun fneg :: "fval \<Rightarrow> fval" where
  "fneg NaN = NaN"
| "fneg (Num x) = Num (- x)"

fun fadd :: "fval \<Rightarrow> fval \<Rightarrow> fval" where
  "fadd (Num x) (Num y) = Num (x + y)"
| "fadd _ _ = NaN"

fun fscale :: "fval \<Rightarrow> real \<Rightarrow> fval" where
  "fscale NaN c = NaN"
| "fscale (Num x) c = Num (x * c)"

text \<open>\<open>loss /= k\<close> with a nonzero integer \<open>k\<close> (the only use is under \<open>k > 1\<close>).\<close>

fun fdiv :: "fval \<Rightarrow> int \<Rightarrow> fval" where
  "fdiv NaN k = NaN"
| "fdiv (Num x) k = Num (x / real_of_int k)"

text \<open>
  \<open>a * b\<close> on one-dimensional tensors: elementwise when the sizes agree, a tensor of one
  element is broadcast along the other, any other pair of sizes raises.
\<close>

definition tensor_mul :: "real list \<Rightarrow> real list \<Rightarrow> real list option" where
  "tensor_mul xs ys =
     (if length xs = length ys then Some (map (\<lambda>(x, y). x * y) (zip xs ys))
      else if length xs = 1 then Some (map (\<lambda>y. hd xs * y) ys)
      else if length ys = 1 then Some (map (\<lambda>x. x * hd ys) xs)
      else None)"

text \<open>\<open>t.mean()\<close>: NaN on the empty tensor, no exception.\<close>

definition tensor_mean :: "real list \<Rightarrow> fval" where
  "tensor_mean xs = (if xs = [] then NaN else Num (sum_list xs / real (length xs)))"

subsection \<open>Data\<close>

record config =
  work_dir :: string
  save_every_niter :: int
  entropy_reg_weight :: real
  max_train_step :: int
  save_program_cache_niter :: int
  freeze_bert_niter :: int
  gradient_accumulation_niter :: int

text \<open>A training sample; the trajectory is an opaque payload handed to the agent.\<close>

record sample =
  trajectory :: nat
  weight :: real

text \<open>
  What one pass of the loop body receives from outside: the batch taken from
  \<open>train_queue\<close>, the agent's forward pass at that moment (\<open>None\<close> when it raises), the
  program cache's \<open>stat()\<close> as the pair \<open>(num_entries, num_envs)\<close>, and whether the file
  system accepts the checkpoint write and the cache snapshot write.
\<close>

record iter_input =
  train_samples :: "sample list"
  agent :: "nat list \<Rightarrow> real list option"
  program_cache_stat :: "int \<times> int"
  save_ok :: bool
  dump_ok :: bool

datatype optimizer = Other | Bert

datatype event =
    ZeroGrad optimizer
  | Backward fval
  | ClipGradNorm
  | OptStep optimizer
  | NewAdam
  | TorchSave string
  | QueuePut "string option"
  | SlotWrite string
  | OsRemove string
  | DumpProgramCache

text \<open>
  The learner: the fields of the object (\<open>current_model_path\<close>, \<open>checkpoint_queue\<close> as
  the list of everything put on it, \<open>eval_msg_val\<close> which is absent until
  \<open>register_evaluator\<close> ran, \<open>actor_num\<close>, and whether a \<open>shared_program_cache\<close> was
  passed to the constructor), the locals that \<open>train\<close> carries from one pass to the next
  (\<open>train_iter\<close>, \<open>cum_loss\<close>, \<open>cum_examples\<close>), the checkpoint files on disk, and the log.
\<close>

record learner =
  train_iter :: int
  cum_loss :: fval
  cum_examples :: nat
  current_model_path :: "string option"
  checkpoint_queue :: "string option list"
  eval_msg_val :: "string option"
  actor_num :: nat
  shared_program_cache :: bool
  ckpt_files :: "string set"
  trace :: "(int \<times> event) list"

datatype outcome = Ok learner | Abort error learner

fun state_of :: "outcome \<Rightarrow> learner" where
  "state_of (Ok s) = s"
| "state_of (Abort e s) = s"

text \<open>What the loop ends in: the bound is reached, the queue has nothing more, or an exception.\<close>

datatype run = Stopped learner | Waiting learner | Raised error learner

definition log_event :: "event \<Rightarrow> learner \<Rightarrow> learner" where
  "log_event e s = s\<lparr>trace := trace s @ [(train_iter s, e)]\<rparr>"

subsection \<open>Construction and registration\<close>

definition Learner_init :: "bool \<Rightarrow> string set \<Rightarrow> learner" where
  "Learner_init cache files =
     \<lparr>train_iter = 0, cum_loss = Num 0, cum_examples = 0, current_model_path = None,
      checkpoint_queue = [], eval_msg_val = None, actor_num = 0,
      shared_program_cache = cache, ckpt_files = files, trace = []\<rparr>"

definition register_actor :: "learner \<Rightarrow> learner" where
  "register_actor s = s\<lparr>actor_num := actor_num s + 1\<rparr>"

definition register_evaluator :: "learner \<Rightarrow> learner" where
  "register_evaluator s = s\<lparr>eval_msg_val := Some []\<rparr>"

subsection \<open>The checkpoint path\<close>

definition digit_char :: "nat \<Rightarrow> char" where
  "digit_char d = ''0123456789'' ! d"

fun dec_nat :: "nat \<Rightarrow> string" where
  "dec_nat n = (if n < 10 then [digit_char n] else dec_nat (n div 10) @ [digit_char (n mod 10)])"

declare dec_nat.simps [simp del]

text \<open>\<open>'%d' % i\<close>\<close>

definition format_d :: "int \<Rightarrow> string" where
  "format_d i = (if i < 0 then CHR ''-'' # dec_nat (nat (- i)) else dec_nat (nat i))"

text \<open>\<open>os.path.join(a, b)\<close> on POSIX.\<close>

definition path_join :: "string \<Rightarrow> string \<Rightarrow> string" where
  "path_join a b =
     (if b \<noteq> [] \<and> hd b = CHR ''/'' then b
      else if a = [] \<or> last a = CHR ''/'' then a @ b
      else a @ ''/'' @ b)"

definition model_save_path :: "config \<Rightarrow> int \<Rightarrow> string" where
  "model_save_path cfg n = path_join (work_dir cfg) (''agent_state.iter'' @ format_d n @ ''.bin'')"

subsection \<open>Publication\<close>

text \<open>Python's truth value of \<open>model_path\<close>: \<open>None\<close> and the empty string are false.\<close>

fun truthy :: "string option \<Rightarrow> bool" where
  "truthy None = False"
| "truthy (Some p) = (p \<noteq> [])"

text \<open>
  \<open>push_new_model\<close>. The message variable holds 4096 bytes; assigning a longer byte
  string to its \<open>value\<close> raises, and so does the access when no evaluator is registered.
\<close>

definition push_new_model :: "string option \<Rightarrow> learner \<Rightarrow> outcome" where
  "push_new_model model_path s =
     (let s1 = log_event (QueuePut model_path)
                 (s\<lparr>checkpoint_queue := checkpoint_queue s @ [model_path]\<rparr>)
      in if truthy model_path then
           (case eval_msg_val s1 of
              None \<Rightarrow> Abort AttributeError s1
            | Some old \<Rightarrow>
                if length (the model_path) > 4096 then Abort ValueError s1
                else Ok (log_event (SlotWrite (the model_path))
                           (s1\<lparr>eval_msg_val := model_path\<rparr>)))
         else Ok s1)"

text \<open>\<open>os.remove\<close>\<close>

definition os_remove :: "string \<Rightarrow> learner \<Rightarrow> outcome" where
  "os_remove p s =
     (if p \<in> ckpt_files s
      then Ok (log_event (OsRemove p) (s\<lparr>ckpt_files := ckpt_files s - {p}\<rparr>))
      else Abort FileNotFoundError s)"

text \<open>\<open>torch.save\<close> to the path, failing when the file system refuses the write.\<close>

definition torch_save :: "bool \<Rightarrow> string \<Rightarrow> learner \<Rightarrow> outcome" where
  "torch_save ok p s =
     (if ok then Ok (log_event (TorchSave p) (s\<lparr>ckpt_files := insert p (ckpt_files s)\<rparr>))
      else Abort OSError s)"

definition update_model_to_actors :: "config \<Rightarrow> bool \<Rightarrow> int \<Rightarrow> learner \<Rightarrow> outcome" where
  "update_model_to_actors cfg ok n s =
     (let p = model_save_path cfg n in
      case torch_save ok p s of
        Abort e s' \<Rightarrow> Abort e s'
      | Ok s1 \<Rightarrow>
          (case push_new_model (Some p) s1 of
             Abort e s' \<Rightarrow> Abort e s'
           | Ok s2 \<Rightarrow>
               (case (if truthy (current_model_path s2)
                      then os_remove (the (current_model_path s2)) s2 else Ok s2) of
                  Abort e s' \<Rightarrow> Abort e s'
                | Ok s3 \<Rightarrow> Ok (s3\<lparr>current_model_path := Some p\<rparr>))))"

subsection \<open>The loop body\<close>

text \<open>Lines 120 to 131: the loss of a batch, from the agent's log-probabilities.\<close>

definition parser_loss :: "config \<Rightarrow> real list \<Rightarrow> sample list \<Rightarrow> fval option" where
  "parser_loss cfg batch_log_prob samples =
     (case tensor_mul batch_log_prob (map weight samples) of
        None \<Rightarrow> None
      | Some weighted \<Rightarrow>
          (let loss = fneg (tensor_mean weighted) in
           Some (if gradient_accumulation_niter cfg > 1
                 then fdiv loss (gradient_accumulation_niter cfg) else loss)))"

text \<open>Lines 150 to 157: the optimizer calls of a pass whose counter is already incremented.\<close>

definition optimizer_steps :: "config \<Rightarrow> learner \<Rightarrow> outcome" where
  "optimizer_steps cfg s =
     (if gradient_accumulation_niter cfg = 0 then Abort ZeroDivisionError s
      else if train_iter s mod gradient_accumulation_niter cfg = 0 then
        (let s1 = log_event (OptStep Other) s in
         if train_iter s > freeze_bert_niter cfg then Ok (log_event (OptStep Bert) s1)
         else if train_iter s = freeze_bert_niter cfg then Ok (log_event NewAdam s1)
         else Ok s1)
      else Ok s)"

text \<open>Lines 108 to 110: what happens before the loop blocks on the queue.\<close>

definition begin_iteration :: "learner \<Rightarrow> learner" where
  "begin_iteration s =
     log_event (ZeroGrad Bert) (log_event (ZeroGrad Other) (s\<lparr>train_iter := train_iter s + 1\<rparr>))"

text \<open>
  Lines 120 to 167. The name \<open>entropy\<close> is read on line 137 and bound nowhere before, so
  a nonzero \<open>entropy_reg_weight\<close> raises there.
\<close>

definition optimise :: "config \<Rightarrow> iter_input \<Rightarrow> learner \<Rightarrow> outcome" where
  "optimise cfg inp s =
     (case agent inp (map trajectory (train_samples inp)) of
        None \<Rightarrow> Abort ForwardError s
      | Some batch_log_prob \<Rightarrow>
          (case parser_loss cfg batch_log_prob (train_samples inp) of
             None \<Rightarrow> Abort RuntimeError s
           | Some loss \<Rightarrow>
               if entropy_reg_weight cfg \<noteq> 0 then Abort UnboundLocalError s
               else
                 (case optimizer_steps cfg (log_event ClipGradNorm (log_event (Backward loss) s)) of
                    Abort e s' \<Rightarrow> Abort e s'
                  | Ok s1 \<Rightarrow>
                      Ok (s1\<lparr>cum_loss := fadd (cum_loss s1)
                                           (fscale loss (real (length (train_samples inp)))),
                             cum_examples := cum_examples s1 + length (train_samples inp)\<rparr>))))"

text \<open>
  Lines 169 to 190. The first division is the average loss in the progress message; the
  elapsed time it also divides by is taken to be positive. The second is the cache
  statistic.
\<close>

definition publish :: "config \<Rightarrow> iter_input \<Rightarrow> learner \<Rightarrow> outcome" where
  "publish cfg inp s =
     (if save_every_niter cfg = 0 then Abort ZeroDivisionError s
      else if train_iter s mod save_every_niter cfg = 0 then
        (if cum_examples s = 0 then Abort ZeroDivisionError s
         else
           (case update_model_to_actors cfg (save_ok inp) (train_iter s)
                   (s\<lparr>cum_loss := Num 0, cum_examples := 0\<rparr>) of
              Abort e s' \<Rightarrow> Abort e s'
            | Ok s1 \<Rightarrow>
                if \<not> shared_program_cache s1 then Abort AttributeError s1
                else if snd (program_cache_stat inp) = 0 then Abort ZeroDivisionError s1
                else Ok s1))
      else push_new_model (current_model_path s) s)"

text \<open>Lines 192 to 199.\<close>

definition dump_program_cache :: "config \<Rightarrow> iter_input \<Rightarrow> learner \<Rightarrow> outcome" where
  "dump_program_cache cfg inp s =
     (if save_program_cache_niter cfg > 0 \<and> train_iter s mod save_program_cache_niter cfg = 0
      then (if \<not> shared_program_cache s then Abort AttributeError s
            else if \<not> dump_ok inp then Abort OSError s
            else Ok (log_event DumpProgramCache s))
      else Ok s)"

text \<open>The body after the batch has arrived.\<close>

definition iteration_body :: "config \<Rightarrow> iter_input \<Rightarrow> learner \<Rightarrow> outcome" where
  "iteration_body cfg inp s =
     (case optimise cfg inp s of
        Abort e s' \<Rightarrow> Abort e s'
      | Ok s1 \<Rightarrow>
          (case publish cfg inp s1 of
             Abort e s' \<Rightarrow> Abort e s'
           | Ok s2 \<Rightarrow> dump_program_cache cfg inp s2))"

text \<open>One full pass, for a batch that is there.\<close>

definition train_step :: "config \<Rightarrow> iter_input \<Rightarrow> learner \<Rightarrow> outcome" where
  "train_step cfg inp s = iteration_body cfg inp (begin_iteration s)"

text \<open>
  The loop of \<open>train\<close>, over the batches that the queue delivers. When they run out before
  \<open>max_train_step\<close> the loop is blocked in \<open>train_queue.get()\<close>, after the counter was
  incremented and the gradients were zeroed.
\<close>

fun train_loop :: "config \<Rightarrow> iter_input list \<Rightarrow> learner \<Rightarrow> run" where
  "train_loop cfg [] s =
     (if train_iter s < max_train_step cfg then Waiting (begin_iteration s) else Stopped s)"
| "train_loop cfg (inp # rest) s =
     (if train_iter s < max_train_step cfg then
        (case iteration_body cfg inp (begin_iteration s) of
           Abort e s' \<Rightarrow> Raised e s'
         | Ok s' \<Rightarrow> train_loop cfg rest s')
      else Stopped s)"

text \<open>
  \<open>train\<close>: lines 67 and 104 set the counter and the running sums, then the loop runs.
\<close>

definition train :: "config \<Rightarrow> iter_input list \<Rightarrow> learner \<Rightarrow> run" where
  "train cfg batches s =
     train_loop cfg batches (s\<lparr>train_iter := 0, cum_loss := Num 0, cum_examples := 0\<rparr>)"

subsection \<open>Observations on a run\<close>

fun error_of :: "outcome \<Rightarrow> error option" where
  "error_of (Ok s) = None"
| "error_of (Abort e s) = Some e"

fun run_state :: "run \<Rightarrow> learner" where
  "run_state (Stopped s) = s"
| "run_state (Waiting s) = s"
| "run_state (Raised e s) = s"

fun raised :: "run \<Rightarrow> bool" where
  "raised (Raised e s) = True"
| "raised r = False"

text \<open>
  The counter of the last pass that ran to its end: a loop that waits for a batch, or
  that raised, has already incremented the counter for the pass it did not finish.
\<close>

fun passes_done :: "run \<Rightarrow> int" where
  "passes_done (Stopped s) = train_iter s"
| "passes_done (Waiting s) = train_iter s - 1"
| "passes_done (Raised e s) = train_iter s - 1"

text \<open>
  The loss in the words of the specification: the negative mean over the samples of
  log-probability times weight, divided by \<open>k\<close> when \<open>k > 1\<close>.
\<close>

definition weighted_nll :: "int \<Rightarrow> real list \<Rightarrow> sample list \<Rightarrow> real" where
  "weighted_nll k lps samples =
     (let m = - ((\<Sum>i<length samples. lps ! i * weight (samples ! i)) / real (length samples))
      in if k > 1 then m / real_of_int k else m)"

text \<open>Reading a decimal numeral back, to tell the paths of two steps apart.\<close>

definition undec :: "string \<Rightarrow> nat" where
  "undec cs = foldl (\<lambda>acc c. 10 * acc + (of_char c - 48)) 0 cs"

text \<open>
  The requirement on publication, as a check of a sequence of calls against the set of
  checkpoint files that exist: a path put on the queue or written to the message
  variable names a file that was saved and not removed since.
\<close>

fun published_live :: "string set \<Rightarrow> event list \<Rightarrow> bool" where
  "published_live F [] = True"
| "published_live F (TorchSave p # es) = published_live (insert p F) es"
| "published_live F (OsRemove p # es) = published_live (F - {p}) es"
| "published_live F (QueuePut (Some p) # es) = (p \<in> F \<and> published_live F es)"
| "published_live F (SlotWrite p # es) = (p \<in> F \<and> published_live F es)"
| "published_live F (e # es) = published_live F es"

text \<open>
  The calls a step added to the log, and what a sequence of calls does to the queue, to
  the message variable and to the files: the log replayed on the three.
\<close>

definition new_calls :: "learner \<Rightarrow> learner \<Rightarrow> event list" where
  "new_calls s s' = map snd (drop (length (trace s)) (trace s'))"

fun queue_puts :: "event list \<Rightarrow> string option list" where
  "queue_puts [] = []"
| "queue_puts (QueuePut mp # es) = mp # queue_puts es"
| "queue_puts (e # es) = queue_puts es"

fun slot_after :: "string option \<Rightarrow> event list \<Rightarrow> string option" where
  "slot_after v [] = v"
| "slot_after v (SlotWrite p # es) = slot_after (Some p) es"
| "slot_after v (e # es) = slot_after v es"

text \<open>The files that exist after a sequence of calls.\<close>

fun live_files :: "string set \<Rightarrow> event list \<Rightarrow> string set" where
  "live_files F [] = F"
| "live_files F (TorchSave p # es) = live_files (insert p F) es"
| "live_files F (OsRemove p # es) = live_files (F - {p}) es"
| "live_files F (e # es) = live_files F es"

text \<open>The paths that the logged calls of \<open>torch.save\<close> wrote.\<close>

fun saved_paths :: "(int \<times> event) list \<Rightarrow> string set" where
  "saved_paths [] = {}"
| "saved_paths ((i, TorchSave p) # tr) = insert p (saved_paths tr)"
| "saved_paths (x # tr) = saved_paths tr"

text \<open>
  What a run keeps true of its checkpoints between two passes: the current path is one
  the run composed for a step already taken, it is the one saved file left, and with a
  positive period it is the path of the last step that was a multiple of the period.
\<close>

definition ckpt_inv :: "config \<Rightarrow> learner \<Rightarrow> bool" where
  "ckpt_inv cfg t \<longleftrightarrow>
     0 \<le> train_iter t
     \<and> (case current_model_path t of
          None \<Rightarrow> saved_paths (trace t) = {}
        | Some p \<Rightarrow> (\<exists>j. j \<le> train_iter t \<and> p = model_save_path cfg j)
                     \<and> saved_paths (trace t) \<inter> ckpt_files t = {p})
     \<and> (0 < save_every_niter cfg \<longrightarrow>
          current_model_path t =
            (if train_iter t < save_every_niter cfg then None
             else Some (model_save_path cfg (train_iter t - train_iter t mod save_every_niter cfg))))"

text \<open>
  What a run keeps true of its publications between two passes: every path it has
  published named a file that existed then, and the current path names a file that exists.
\<close>

definition pub_inv :: "config \<Rightarrow> learner \<Rightarrow> bool" where
  "pub_inv cfg t \<longleftrightarrow>
     published_live {} (map snd (trace t))
     \<and> (case current_model_path t of
          None \<Rightarrow> True
        | Some p \<Rightarrow> (\<exists>j. j \<le> train_iter t \<and> p = model_save_path cfg j)
                     \<and> p \<in> live_files {} (map snd (trace t)))"

subsection \<open>A small configuration\<close>

text \<open>
  Four steps, a checkpoint every second step, no accumulation, no freezing; batches of
  one sample of weight 1 whose log-probability is \<open>-1\<close>; a cache of three programs for
  one environment.
\<close>

definition demo_config :: config where
  "demo_config =
     \<lparr>work_dir = ''run'', save_every_niter = 2, entropy_reg_weight = 0, max_train_step = 4,
      save_program_cache_niter = 0, freeze_bert_niter = 0, gradient_accumulation_niter = 1\<rparr>"

definition demo_agent :: "nat list \<Rightarrow> real list option" where
  "demo_agent ts = Some (map (\<lambda>t. - 1) ts)"

definition demo_input :: iter_input where
  "demo_input =
     \<lparr>train_samples = [\<lparr>trajectory = 0, weight = 1\<rparr>], agent = demo_agent,
      program_cache_stat = (3, 1), save_ok = True, dump_ok = True\<rparr>"

definition empty_input :: iter_input where
  "empty_input = demo_input\<lparr>train_samples := []\<rparr>"

definition demo_learner :: learner where
  "demo_learner = register_evaluator (register_actor (Learner_init True {}))"

definition demo_batches :: "iter_input list" where
  "demo_batches = [demo_input, demo_input, demo_input, demo_input]"

text \<open>Variants: accumulation over two steps, with and without a freeze, and an entropy weight.\<close>

definition accum_config :: config where
  "accum_config = demo_config\<lparr>gradient_accumulation_niter := 2\<rparr>"

definition freeze_config :: config where
  "freeze_config = demo_config\<lparr>gradient_accumulation_niter := 2, freeze_bert_niter := 3\<rparr>"

definition thaw_config :: config where
  "thaw_config = demo_config\<lparr>gradient_accumulation_niter := 2, freeze_bert_niter := 2\<rparr>"

definition entropy_config :: config where
  "entropy_config = demo_config\<lparr>entropy_reg_weight := 1 / 100\<rparr>"

definition no_envs_input :: iter_input where
  "no_envs_input = demo_input\<lparr>program_cache_stat := (3, 0)\<rparr>"

section \<open>Facts about the embedding\<close>

subsection \<open>The log and the start of a pass\<close>

lemma log_event_simps [simp]:
  "train_iter (log_event e s) = train_iter s"
  "cum_loss (log_event e s) = cum_loss s"
  "cum_examples (log_event e s) = cum_examples s"
  "current_model_path (log_event e s) = current_model_path s"
  "checkpoint_queue (log_event e s) = checkpoint_queue s"
  "eval_msg_val (log_event e s) = eval_msg_val s"
  "actor_num (log_event e s) = actor_num s"
  "shared_program_cache (log_event e s) = shared_program_cache s"
  "ckpt_files (log_event e s) = ckpt_files s"
  "trace (log_event e s) = trace s @ [(train_iter s, e)]"
  by (simp_all add: log_event_def)

lemma begin_iteration_simps [simp]:
  "train_iter (begin_iteration s) = train_iter s + 1"
  "cum_loss (begin_iteration s) = cum_loss s"
  "cum_examples (begin_iteration s) = cum_examples s"
  "current_model_path (begin_iteration s) = current_model_path s"
  "checkpoint_queue (begin_iteration s) = checkpoint_queue s"
  "eval_msg_val (begin_iteration s) = eval_msg_val s"
  "actor_num (begin_iteration s) = actor_num s"
  "shared_program_cache (begin_iteration s) = shared_program_cache s"
  "ckpt_files (begin_iteration s) = ckpt_files s"
  "trace (begin_iteration s) =
     trace s @ [(train_iter s + 1, ZeroGrad Other), (train_iter s + 1, ZeroGrad Bert)]"
  by (simp_all add: begin_iteration_def)

subsection \<open>Tensors and the loss\<close>

lemma tensor_mul_same_length:
  "length xs = length ys \<Longrightarrow> tensor_mul xs ys = Some (map (\<lambda>i. xs ! i * ys ! i) [0..<length ys])"
  unfolding tensor_mul_def
  by (auto intro!: nth_equalityI)

lemma sum_list_map_upt: "sum_list (map f [0..<n]) = (\<Sum>i<n. f i)"
  by (simp add: sum_list_sum_nth atLeast0LessThan)

lemma loss_formula:
  assumes "samples \<noteq> []" and "length lps = length samples"
  shows "parser_loss cfg lps samples =
           Some (Num (let m = - ((\<Sum>i<length samples. lps ! i * weight (samples ! i))
                                  / real (length samples))
                      in if gradient_accumulation_niter cfg > 1
                         then m / real_of_int (gradient_accumulation_niter cfg) else m))"
  using assms
  by (simp add: parser_loss_def tensor_mul_same_length tensor_mean_def Let_def
        sum_list_map_upt o_def)

lemma parser_loss_empty:
  "length lps \<le> 1 \<Longrightarrow> parser_loss cfg lps [] = Some NaN"
  by (cases lps) (auto simp: parser_loss_def tensor_mul_def tensor_mean_def)

subsection \<open>The checkpoint path tells the steps apart\<close>

lemma of_char_digit: "d < 10 \<Longrightarrow> (of_char (digit_char d) :: nat) = 48 + d"
proof -
  assume "d < 10"
  then have "d \<in> {0, 1, 2, 3, 4, 5, 6, 7, 8, 9}" by auto
  then show ?thesis by (auto simp: digit_char_def)
qed

lemma undec_snoc: "undec (cs @ [c]) = 10 * undec cs + (of_char c - 48)"
  by (simp add: undec_def)

lemma undec_dec_nat: "undec (dec_nat n) = n"
proof (induction n rule: dec_nat.induct)
  case (1 n)
  show ?case
  proof (cases "n < 10")
    case True
    then show ?thesis by (simp add: dec_nat.simps[of n] undec_def of_char_digit)
  next
    case False
    then have "undec (dec_nat (n div 10)) = n div 10" using 1 by simp
    then show ?thesis using False
      by (simp add: dec_nat.simps[of n] undec_snoc of_char_digit)
  qed
qed

lemma dec_nat_inj: "dec_nat m = dec_nat n \<Longrightarrow> m = n"
  by (metis undec_dec_nat)

lemma dec_nat_nonempty: "dec_nat n \<noteq> []"
  by (subst dec_nat.simps) simp

lemma hd_dec_nat_digit: "hd (dec_nat n) \<noteq> CHR ''-''"
proof (induction n rule: dec_nat.induct)
  case (1 n)
  show ?case
  proof (cases "n < 10")
    case True
    have "(of_char (digit_char n) :: nat) \<noteq> of_char CHR ''-''"
      using True by (simp add: of_char_digit)
    then have "digit_char n \<noteq> CHR ''-''" by auto
    then show ?thesis using True by (simp add: dec_nat.simps[of n])
  next
    case False
    then show ?thesis using 1 dec_nat_nonempty[of "n div 10"]
      by (simp add: dec_nat.simps[of n])
  qed
qed

lemma format_d_inj: "format_d i = format_d j \<Longrightarrow> i = j"
proof -
  assume eq: "format_d i = format_d j"
  have neg: "\<And>a b. CHR ''-'' # dec_nat a \<noteq> dec_nat b"
    using hd_dec_nat_digit by (metis list.sel(1))
  show "i = j"
  proof (cases "i < 0"; cases "j < 0")
    assume "i < 0" "j < 0"
    then show ?thesis using eq dec_nat_inj by (fastforce simp: format_d_def)
  next
    assume "i < 0" "\<not> j < 0"
    then show ?thesis using eq neg by (simp add: format_d_def)
  next
    assume "\<not> i < 0" "j < 0"
    then show ?thesis using eq neg[of "nat (- j)" "nat i"] by (simp add: format_d_def)
  next
    assume "\<not> i < 0" "\<not> j < 0"
    then show ?thesis using eq dec_nat_inj by (fastforce simp: format_d_def)
  qed
qed

lemma model_save_path_eq:
  "model_save_path cfg n =
     (if work_dir cfg = [] \<or> last (work_dir cfg) = CHR ''/'' then work_dir cfg
      else work_dir cfg @ ''/'') @ ''agent_state.iter'' @ format_d n @ ''.bin''"
  by (simp add: model_save_path_def path_join_def)

lemma model_save_path_inj: "model_save_path cfg i = model_save_path cfg j \<Longrightarrow> i = j"
  unfolding model_save_path_eq
  by (simp only: same_append_eq append_same_eq) (rule format_d_inj)

lemma model_save_path_nonempty: "model_save_path cfg n \<noteq> []"
  by (auto simp: model_save_path_def path_join_def)

subsection \<open>What a publication does\<close>

lemma push_new_model_fields [simp]:
  "train_iter (state_of (push_new_model mp s)) = train_iter s"
  "cum_loss (state_of (push_new_model mp s)) = cum_loss s"
  "cum_examples (state_of (push_new_model mp s)) = cum_examples s"
  "current_model_path (state_of (push_new_model mp s)) = current_model_path s"
  "checkpoint_queue (state_of (push_new_model mp s)) = checkpoint_queue s @ [mp]"
  "actor_num (state_of (push_new_model mp s)) = actor_num s"
  "shared_program_cache (state_of (push_new_model mp s)) = shared_program_cache s"
  "ckpt_files (state_of (push_new_model mp s)) = ckpt_files s"
  by (simp_all add: push_new_model_def Let_def split: option.splits)

lemma push_new_model_Ok:
  assumes "push_new_model mp s = Ok s'"
  shows "eval_msg_val s' = (if truthy mp then mp else eval_msg_val s)"
    and "trace s' = trace s @ (train_iter s, QueuePut mp)
                      # (if truthy mp then [(train_iter s, SlotWrite (the mp))] else [])"
  using assms
  by (auto simp: push_new_model_def Let_def split: option.splits if_splits)

lemma push_new_model_Ok_fields:
  assumes "push_new_model mp s = Ok s'"
  shows "train_iter s' = train_iter s"
    and "current_model_path s' = current_model_path s"
    and "ckpt_files s' = ckpt_files s"
    and "checkpoint_queue s' = checkpoint_queue s @ [mp]"
    and "cum_examples s' = cum_examples s"
    and "shared_program_cache s' = shared_program_cache s"
  using assms
  by (auto simp: push_new_model_def Let_def split: option.splits if_splits)

lemma push_new_model_trace:
  "trace (state_of (push_new_model mp s)) =
     trace s @ (train_iter s, QueuePut mp)
       # (case push_new_model mp s of Ok _ \<Rightarrow> if truthy mp then [(train_iter s, SlotWrite (the mp))] else []
          | Abort _ _ \<Rightarrow> [])"
  by (auto simp: push_new_model_def Let_def split: option.splits if_splits)

lemma push_new_model_train_iter:
  "push_new_model mp s = Ok s' \<Longrightarrow> train_iter s' = train_iter s"
  by (metis push_new_model_fields(1) state_of.simps(1))

lemma update_model_to_actors_Ok:
  assumes "update_model_to_actors cfg ok n s = Ok s'"
  shows "current_model_path s' = Some (model_save_path cfg n)"
    and "ckpt_files s' = insert (model_save_path cfg n) (ckpt_files s)
            - (if truthy (current_model_path s) then {the (current_model_path s)} else {})"
    and "truthy (current_model_path s) \<Longrightarrow> the (current_model_path s) \<in> insert (model_save_path cfg n) (ckpt_files s)"
    and "checkpoint_queue s' = checkpoint_queue s @ [Some (model_save_path cfg n)]"
    and "eval_msg_val s' = Some (model_save_path cfg n)"
    and "train_iter s' = train_iter s"
    and "cum_loss s' = cum_loss s"
    and "cum_examples s' = cum_examples s"
    and "shared_program_cache s' = shared_program_cache s"
    and "actor_num s' = actor_num s"
    and "trace s' = trace s @ [(train_iter s, TorchSave (model_save_path cfg n)),
                               (train_iter s, QueuePut (Some (model_save_path cfg n))),
                               (train_iter s, SlotWrite (model_save_path cfg n))]
                      @ (if truthy (current_model_path s)
                         then [(train_iter s, OsRemove (the (current_model_path s)))] else [])"
  using assms
  by (auto simp: update_model_to_actors_def torch_save_def push_new_model_def os_remove_def
        Let_def model_save_path_nonempty split: option.splits if_splits)

lemma update_model_to_actors_state:
  "train_iter (state_of (update_model_to_actors cfg ok n s)) = train_iter s"
  "set (trace s) \<subseteq> set (trace (state_of (update_model_to_actors cfg ok n s)))"
  by (auto simp: update_model_to_actors_def torch_save_def push_new_model_def os_remove_def
        Let_def split: option.splits if_splits)

subsection \<open>What a pass does\<close>

lemma optimise_Ok:
  assumes "optimise cfg inp s = Ok s'"
  shows "train_iter s' = train_iter s"
    and "current_model_path s' = current_model_path s"
    and "checkpoint_queue s' = checkpoint_queue s"
    and "eval_msg_val s' = eval_msg_val s"
    and "ckpt_files s' = ckpt_files s"
    and "shared_program_cache s' = shared_program_cache s"
    and "actor_num s' = actor_num s"
    and "cum_examples s' = cum_examples s + length (train_samples inp)"
    and "gradient_accumulation_niter cfg \<noteq> 0"
    and "entropy_reg_weight cfg = 0"
    and "\<exists>lps loss. agent inp (map trajectory (train_samples inp)) = Some lps
           \<and> parser_loss cfg lps (train_samples inp) = Some loss
           \<and> trace s' = trace s @ [(train_iter s, Backward loss), (train_iter s, ClipGradNorm)]
               @ (if train_iter s mod gradient_accumulation_niter cfg = 0
                  then (train_iter s, OptStep Other)
                       # (if freeze_bert_niter cfg < train_iter s then [(train_iter s, OptStep Bert)]
                          else if train_iter s = freeze_bert_niter cfg then [(train_iter s, NewAdam)]
                          else [])
                  else [])"
  using assms
  by (auto simp: optimise_def optimizer_steps_def Let_def split: option.splits if_splits)

lemma optimise_state:
  "train_iter (state_of (optimise cfg inp s)) = train_iter s"
  "set (trace s) \<subseteq> set (trace (state_of (optimise cfg inp s)))"
  by (auto simp: optimise_def optimizer_steps_def Let_def split: option.splits)

lemma optimise_calls:
  assumes "agent inp (map trajectory (train_samples inp)) = Some lps"
    and "parser_loss cfg lps (train_samples inp) = Some loss"
    and "entropy_reg_weight cfg = 0"
  shows "(train_iter s, Backward loss) \<in> set (trace (state_of (optimise cfg inp s)))"
    and "(train_iter s, ClipGradNorm) \<in> set (trace (state_of (optimise cfg inp s)))"
    and "gradient_accumulation_niter cfg \<noteq> 0 \<Longrightarrow>
           train_iter s mod gradient_accumulation_niter cfg = 0 \<Longrightarrow>
           (train_iter s, OptStep Other) \<in> set (trace (state_of (optimise cfg inp s)))"
  using assms
  by (auto simp: optimise_def optimizer_steps_def Let_def)

lemma publish_Ok:
  assumes "publish cfg inp s = Ok s'"
  shows "save_every_niter cfg \<noteq> 0"
    and "train_iter s mod save_every_niter cfg = 0 \<Longrightarrow>
           update_model_to_actors cfg (save_ok inp) (train_iter s)
             (s\<lparr>cum_loss := Num 0, cum_examples := 0\<rparr>) = Ok s'
           \<and> cum_examples s \<noteq> 0 \<and> shared_program_cache s' \<and> snd (program_cache_stat inp) \<noteq> 0"
    and "train_iter s mod save_every_niter cfg \<noteq> 0 \<Longrightarrow>
           push_new_model (current_model_path s) s = Ok s'"
  using assms
  by (auto simp: publish_def split: outcome.splits if_splits)

lemma publish_train_iter:
  assumes "publish cfg inp s = Ok s'"
  shows "train_iter s' = train_iter s"
proof (cases "train_iter s mod save_every_niter cfg = 0")
  case True
  from publish_Ok(2)[OF assms True] show ?thesis
    using update_model_to_actors_Ok(6) by fastforce
next
  case False
  from publish_Ok(3)[OF assms False] show ?thesis
    by (rule push_new_model_train_iter)
qed

lemma publish_state:
  "train_iter (state_of (publish cfg inp s)) = train_iter s"
  "set (trace s) \<subseteq> set (trace (state_of (publish cfg inp s)))"
proof -
  let ?u = "update_model_to_actors cfg (save_ok inp) (train_iter s)
              (s\<lparr>cum_loss := Num 0, cum_examples := 0\<rparr>)"
  have u1: "train_iter (state_of ?u) = train_iter s"
    using update_model_to_actors_state(1)[of cfg "save_ok inp" "train_iter s"
        "s\<lparr>cum_loss := Num 0, cum_examples := 0\<rparr>"] by simp
  have u2: "set (trace s) \<subseteq> set (trace (state_of ?u))"
    using update_model_to_actors_state(2)[of "s\<lparr>cum_loss := Num 0, cum_examples := 0\<rparr>"
        cfg "save_ok inp" "train_iter s"] by simp
  have p2: "set (trace s) \<subseteq> set (trace (state_of (push_new_model (current_model_path s) s)))"
    by (auto simp: push_new_model_trace)
  show "train_iter (state_of (publish cfg inp s)) = train_iter s"
    using u1 by (cases ?u) (simp_all add: publish_def)
  show "set (trace s) \<subseteq> set (trace (state_of (publish cfg inp s)))"
    using u2 p2 by (cases ?u) (simp_all add: publish_def)
qed

lemma publish_count:
  assumes "publish cfg inp s = Ok s'"
    and "x \<in> {ClipGradNorm, NewAdam, OptStep Other, OptStep Bert}"
  shows "count_list (trace s') (i, x) = count_list (trace s) (i, x)"
proof (cases "train_iter s mod save_every_niter cfg = 0")
  case True
  from publish_Ok(2)[OF assms(1) True]
  have "update_model_to_actors cfg (save_ok inp) (train_iter s)
          (s\<lparr>cum_loss := Num 0, cum_examples := 0\<rparr>) = Ok s'" by simp
  from update_model_to_actors_Ok(11)[OF this] show ?thesis
    using assms(2) by auto
next
  case False
  from push_new_model_Ok(2)[OF publish_Ok(3)[OF assms(1) False]] show ?thesis
    using assms(2) by auto
qed

lemma dump_program_cache_Ok:
  assumes "dump_program_cache cfg inp s = Ok s'"
  shows "train_iter s' = train_iter s"
    and "current_model_path s' = current_model_path s"
    and "checkpoint_queue s' = checkpoint_queue s"
    and "eval_msg_val s' = eval_msg_val s"
    and "ckpt_files s' = ckpt_files s"
    and "shared_program_cache s' = shared_program_cache s"
    and "cum_examples s' = cum_examples s"
    and "trace s' = trace s @ (if 0 < save_program_cache_niter cfg
                                   \<and> train_iter s mod save_program_cache_niter cfg = 0
                               then [(train_iter s, DumpProgramCache)] else [])"
  using assms
  by (auto simp: dump_program_cache_def split: if_splits)

lemma dump_program_cache_state:
  "train_iter (state_of (dump_program_cache cfg inp s)) = train_iter s"
  "set (trace s) \<subseteq> set (trace (state_of (dump_program_cache cfg inp s)))"
  by (auto simp: dump_program_cache_def)

lemma iteration_body_Ok:
  assumes "iteration_body cfg inp s = Ok s'"
  obtains s1 s2 where "optimise cfg inp s = Ok s1" and "publish cfg inp s1 = Ok s2"
    and "dump_program_cache cfg inp s2 = Ok s'"
  using assms
  by (auto simp: iteration_body_def split: outcome.splits)

lemma iteration_body_train_iter:
  "iteration_body cfg inp s = Ok s' \<Longrightarrow> train_iter s' = train_iter s"
  by (erule iteration_body_Ok)
     (simp add: optimise_Ok(1) publish_train_iter dump_program_cache_Ok(1))

lemma iteration_body_state:
  "train_iter (state_of (iteration_body cfg inp s)) = train_iter s"
  "set (trace (state_of (optimise cfg inp s))) \<subseteq> set (trace (state_of (iteration_body cfg inp s)))"
proof -
  show "train_iter (state_of (iteration_body cfg inp s)) = train_iter s"
  proof (cases "optimise cfg inp s")
    case (Abort e s')
    then show ?thesis using optimise_state(1)[of cfg inp s] by (simp add: iteration_body_def)
  next
    case (Ok s1)
    then have t1: "train_iter s1 = train_iter s" using optimise_state(1)[of cfg inp s] by simp
    show ?thesis
    proof (cases "publish cfg inp s1")
      case (Abort e s')
      then show ?thesis using Ok t1 publish_state(1)[of cfg inp s1] by (simp add: iteration_body_def)
    next
      case Ok2: (Ok s2)
      then have "train_iter s2 = train_iter s" using t1 publish_state(1)[of cfg inp s1] by simp
      then show ?thesis using Ok Ok2 dump_program_cache_state(1)[of cfg inp s2]
        by (simp add: iteration_body_def)
    qed
  qed
  show "set (trace (state_of (optimise cfg inp s))) \<subseteq> set (trace (state_of (iteration_body cfg inp s)))"
  proof (cases "optimise cfg inp s")
    case (Abort e s')
    then show ?thesis by (simp add: iteration_body_def)
  next
    case (Ok s1)
    show ?thesis
    proof (cases "publish cfg inp s1")
      case (Abort e s')
      then show ?thesis using Ok publish_state(2)[of s1 cfg inp] by (simp add: iteration_body_def)
    next
      case Ok2: (Ok s2)
      then show ?thesis
        using Ok publish_state(2)[of s1 cfg inp] dump_program_cache_state(2)[of s2 cfg inp]
        by (auto simp: iteration_body_def)
    qed
  qed
qed

lemma saved_paths_append: "saved_paths (xs @ ys) = saved_paths xs \<union> saved_paths ys"
  by (induction xs rule: saved_paths.induct) auto

lemma pass_fields:
  assumes "iteration_body cfg inp (begin_iteration t) = Ok t'"
  obtains s1 s2 where "optimise cfg inp (begin_iteration t) = Ok s1"
    and "publish cfg inp s1 = Ok s2"
    and "dump_program_cache cfg inp s2 = Ok t'"
    and "train_iter s1 = train_iter t + 1"
    and "current_model_path s1 = current_model_path t"
    and "checkpoint_queue s1 = checkpoint_queue t"
    and "eval_msg_val s1 = eval_msg_val t"
    and "ckpt_files s1 = ckpt_files t"
    and "saved_paths (trace s1) = saved_paths (trace t)"
    and "train_iter t' = train_iter t + 1"
    and "current_model_path t' = current_model_path s2"
    and "checkpoint_queue t' = checkpoint_queue s2"
    and "eval_msg_val t' = eval_msg_val s2"
    and "ckpt_files t' = ckpt_files s2"
    and "saved_paths (trace t') = saved_paths (trace s2)"
proof -
  from assms obtain s1 s2 where o: "optimise cfg inp (begin_iteration t) = Ok s1"
    and p: "publish cfg inp s1 = Ok s2" and d: "dump_program_cache cfg inp s2 = Ok t'"
    by (rule iteration_body_Ok)
  have sp1: "saved_paths (trace s1) = saved_paths (trace t)"
    using optimise_Ok(11)[OF o] by (auto simp: saved_paths_append split: if_splits)
  have sp2: "saved_paths (trace t') = saved_paths (trace s2)"
    using dump_program_cache_Ok(8)[OF d] by (auto simp: saved_paths_append split: if_splits)
  have ti: "train_iter t' = train_iter t + 1"
    using iteration_body_train_iter[OF assms] by simp
  show ?thesis
    using that[OF o p d _ _ _ _ _ sp1 ti _ _ _ _ sp2]
      optimise_Ok(1-5)[OF o] dump_program_cache_Ok(2-5)[OF d]
    by simp
qed

lemma pass_count:
  assumes "iteration_body cfg inp (begin_iteration s) = Ok s'"
  shows "count_list (trace s') (i, ClipGradNorm) =
           count_list (trace s) (i, ClipGradNorm) + (if i = train_iter s + 1 then 1 else 0)"
    and "count_list (trace s') (i, OptStep Other) =
           count_list (trace s) (i, OptStep Other)
           + (if i = train_iter s + 1 \<and> i mod gradient_accumulation_niter cfg = 0 then 1 else 0)"
    and "count_list (trace s') (i, OptStep Bert) =
           count_list (trace s) (i, OptStep Bert)
           + (if i = train_iter s + 1 \<and> i mod gradient_accumulation_niter cfg = 0
                 \<and> freeze_bert_niter cfg < i then 1 else 0)"
    and "count_list (trace s') (i, NewAdam) =
           count_list (trace s) (i, NewAdam)
           + (if i = train_iter s + 1 \<and> i mod gradient_accumulation_niter cfg = 0
                 \<and> i = freeze_bert_niter cfg then 1 else 0)"
proof -
  from assms obtain s1 s2 where o: "optimise cfg inp (begin_iteration s) = Ok s1"
    and p: "publish cfg inp s1 = Ok s2" and d: "dump_program_cache cfg inp s2 = Ok s'"
    by (rule iteration_body_Ok)
  from optimise_Ok(11)[OF o] obtain loss where
    t1: "trace s1 = trace (begin_iteration s)
           @ [(train_iter s + 1, Backward loss), (train_iter s + 1, ClipGradNorm)]
           @ (if (train_iter s + 1) mod gradient_accumulation_niter cfg = 0
              then (train_iter s + 1, OptStep Other)
                   # (if freeze_bert_niter cfg < train_iter s + 1 then [(train_iter s + 1, OptStep Bert)]
                      else if train_iter s + 1 = freeze_bert_niter cfg then [(train_iter s + 1, NewAdam)]
                      else [])
              else [])"
    by auto
  have t3: "\<And>x. x \<in> {ClipGradNorm, NewAdam, OptStep Other, OptStep Bert} \<Longrightarrow>
              count_list (trace s') (i, x) = count_list (trace s1) (i, x)"
    using publish_count[OF p] dump_program_cache_Ok(8)[OF d] by auto
  show "count_list (trace s') (i, ClipGradNorm) =
           count_list (trace s) (i, ClipGradNorm) + (if i = train_iter s + 1 then 1 else 0)"
    using t3[of ClipGradNorm] t1 by auto
  show "count_list (trace s') (i, OptStep Other) =
           count_list (trace s) (i, OptStep Other)
           + (if i = train_iter s + 1 \<and> i mod gradient_accumulation_niter cfg = 0 then 1 else 0)"
    using t3[of "OptStep Other"] t1 by auto
  show "count_list (trace s') (i, OptStep Bert) =
           count_list (trace s) (i, OptStep Bert)
           + (if i = train_iter s + 1 \<and> i mod gradient_accumulation_niter cfg = 0
                 \<and> freeze_bert_niter cfg < i then 1 else 0)"
    using t3[of "OptStep Bert"] t1 by auto
  show "count_list (trace s') (i, NewAdam) =
           count_list (trace s) (i, NewAdam)
           + (if i = train_iter s + 1 \<and> i mod gradient_accumulation_niter cfg = 0
                 \<and> i = freeze_bert_niter cfg then 1 else 0)"
    using t3[of NewAdam] t1 by auto
qed

lemma begin_iteration_count:
  "x \<in> {ClipGradNorm, NewAdam, OptStep Other, OptStep Bert} \<Longrightarrow>
     count_list (trace (begin_iteration s)) (i, x) = count_list (trace s) (i, x)"
  by auto

lemma zero_grad_every_pass:
  "(train_iter s + 1, ZeroGrad Other) \<in> set (trace (state_of (train_step cfg inp s)))"
  "(train_iter s + 1, ZeroGrad Bert) \<in> set (trace (state_of (train_step cfg inp s)))"
  using optimise_state(2)[of "begin_iteration s" cfg inp]
    iteration_body_state(2)[of cfg inp "begin_iteration s"]
  by (auto simp: train_step_def)

subsection \<open>Invariants of the loop\<close>

text \<open>
  A property that every completed pass keeps holds when the loop stops, and held when the
  loop started the pass in which it waits for a batch.
\<close>

lemma train_loop_rule:
  assumes "I s"
    and step: "\<And>inp s s'. I s \<Longrightarrow> train_iter s < max_train_step cfg \<Longrightarrow>
                 iteration_body cfg inp (begin_iteration s) = Ok s' \<Longrightarrow> I s'"
  shows "train_loop cfg inputs s = Stopped s' \<Longrightarrow> I s'"
    and "train_loop cfg inputs s = Waiting s' \<Longrightarrow> \<exists>s''. I s'' \<and> s' = begin_iteration s''"
  using assms(1)
proof (induction inputs arbitrary: s)
  case Nil
  {
    case 1
    then show ?case by (simp split: if_splits)
  next
    case 2
    then show ?case by (auto split: if_splits)
  }
next
  case (Cons inp rest)
  {
    case 1
    then show ?case
      using Cons.IH(1) step by (fastforce split: if_splits outcome.splits)
  next
    case 2
    then show ?case
      using Cons.IH(2) step by (fastforce split: if_splits outcome.splits)
  }
qed

lemma run_cases:
  assumes "\<not> raised r"
  obtains s' where "r = Stopped s'" | s' where "r = Waiting s'"
  using assms by (cases r) auto

lemma loop_invariant:
  assumes I0: "I s"
    and step: "\<And>inp t t'. I t \<Longrightarrow> train_iter t < max_train_step cfg \<Longrightarrow>
                 iteration_body cfg inp (begin_iteration t) = Ok t' \<Longrightarrow> I t'"
    and run: "\<not> raised (train_loop cfg inputs s)"
  obtains t where "I t"
    and "train_loop cfg inputs s = Stopped t \<or> train_loop cfg inputs s = Waiting (begin_iteration t)"
proof -
  from run show ?thesis
  proof (cases rule: run_cases)
    case (1 s')
    have "I s'"
      by (rule train_loop_rule(1)[where I = I, OF I0 _ 1]) (rule step)
    then show ?thesis using 1 that by blast
  next
    case (2 s')
    have "\<exists>t. I t \<and> s' = begin_iteration t"
      by (rule train_loop_rule(2)[where I = I, OF I0 _ 2]) (rule step)
    then show ?thesis using 2 that by blast
  qed
qed

lemma loop_count:
  assumes body: "\<And>inp s s'. iteration_body cfg inp (begin_iteration s) = Ok s' \<Longrightarrow>
                   count_list (trace s') (i, x)
                     = count_list (trace s) (i, x) + (if i = train_iter s + 1 \<and> c i then 1 else 0)"
    and beg: "\<And>s. count_list (trace (begin_iteration s)) (i, x) = count_list (trace s) (i, x)"
    and run: "\<not> raised (train_loop cfg inputs s)"
  shows "count_list (trace (run_state (train_loop cfg inputs s))) (i, x)
           = count_list (trace s) (i, x)
             + (if train_iter s < i \<and> i \<le> passes_done (train_loop cfg inputs s) \<and> c i
                then 1 else 0)"
proof -
  define I where "I t \<longleftrightarrow> train_iter s \<le> train_iter t \<and>
      count_list (trace t) (i, x)
        = count_list (trace s) (i, x) + (if train_iter s < i \<and> i \<le> train_iter t \<and> c i then 1 else 0)"
    for t :: learner
  have I0: "I s" by (simp add: I_def)
  have step: "\<And>inp t t'. I t \<Longrightarrow> train_iter t < max_train_step cfg \<Longrightarrow>
                 iteration_body cfg inp (begin_iteration t) = Ok t' \<Longrightarrow> I t'"
  proof -
    fix inp t t'
    assume "I t" and b: "iteration_body cfg inp (begin_iteration t) = Ok t'"
    have ti: "train_iter t' = train_iter t + 1"
      using iteration_body_train_iter[OF b] by simp
    show "I t'"
      using \<open>I t\<close> body[OF b] ti unfolding I_def by auto
  qed
  from run show ?thesis
  proof (cases rule: run_cases)
    case (1 s')
    have "I s'"
      by (rule train_loop_rule(1)[where I = I, OF I0 _ 1]) (rule step)
    then show ?thesis
      using 1 by (simp add: I_def)
  next
    case (2 s')
    have "\<exists>t. I t \<and> s' = begin_iteration t"
      by (rule train_loop_rule(2)[where I = I, OF I0 _ 2]) (rule step)
    then obtain t where "I t" "s' = begin_iteration t"
      by blast
    then show ?thesis using 2 beg[of t] by (auto simp: I_def)
  qed
qed

subsection \<open>Runs of the small configuration\<close>

lemmas demo_defs = demo_config_def demo_input_def demo_agent_def demo_learner_def
  demo_batches_def Learner_init_def register_actor_def register_evaluator_def

lemmas step_defs = train_step_def iteration_body_def begin_iteration_def optimise_def publish_def
  dump_program_cache_def optimizer_steps_def parser_loss_def tensor_mul_def tensor_mean_def
  update_model_to_actors_def push_new_model_def torch_save_def os_remove_def log_event_def
  model_save_path_def path_join_def format_d_def dec_nat.simps digit_char_def

lemma demo_run:
  "train demo_config demo_batches demo_learner =
     Stopped
     \<lparr>train_iter = 4, cum_loss = Num 0, cum_examples = 0,
     current_model_path = Some ''run/agent_state.iter4.bin'',
     checkpoint_queue =
     [None, Some ''run/agent_state.iter2.bin'',
     Some ''run/agent_state.iter2.bin'',
     Some ''run/agent_state.iter4.bin''],
     eval_msg_val = Some ''run/agent_state.iter4.bin'', actor_num = 1,
     shared_program_cache = True,
     ckpt_files = {''run/agent_state.iter4.bin''},
     trace =
     [(1, ZeroGrad Other), (1, ZeroGrad Bert), (1, Backward (Num 1)),
     (1, ClipGradNorm), (1, OptStep Other), (1, OptStep Bert),
     (1, QueuePut None), (2, ZeroGrad Other), (2, ZeroGrad Bert),
     (2, Backward (Num 1)), (2, ClipGradNorm), (2, OptStep Other),
     (2, OptStep Bert), (2, TorchSave ''run/agent_state.iter2.bin''),
     (2, QueuePut (Some ''run/agent_state.iter2.bin'')),
     (2, SlotWrite ''run/agent_state.iter2.bin''), (3, ZeroGrad Other),
     (3, ZeroGrad Bert), (3, Backward (Num 1)), (3, ClipGradNorm),
     (3, OptStep Other), (3, OptStep Bert),
     (3, QueuePut (Some ''run/agent_state.iter2.bin'')),
     (3, SlotWrite ''run/agent_state.iter2.bin''), (4, ZeroGrad Other),
     (4, ZeroGrad Bert), (4, Backward (Num 1)), (4, ClipGradNorm),
     (4, OptStep Other), (4, OptStep Bert),
     (4, TorchSave ''run/agent_state.iter4.bin''),
     (4, QueuePut (Some ''run/agent_state.iter4.bin'')),
     (4, SlotWrite ''run/agent_state.iter4.bin''),
     (4, OsRemove ''run/agent_state.iter2.bin'')]\<rparr>"
  by (simp add: train_def demo_defs step_defs Let_def insert_Diff_if)

lemma accum_run:
  "train accum_config demo_batches demo_learner =
     Stopped
     \<lparr>train_iter = 4, cum_loss = Num 0, cum_examples = 0,
     current_model_path = Some ''run/agent_state.iter4.bin'',
     checkpoint_queue =
     [None, Some ''run/agent_state.iter2.bin'',
     Some ''run/agent_state.iter2.bin'',
     Some ''run/agent_state.iter4.bin''],
     eval_msg_val = Some ''run/agent_state.iter4.bin'', actor_num = 1,
     shared_program_cache = True,
     ckpt_files = {''run/agent_state.iter4.bin''},
     trace =
     [(1, ZeroGrad Other), (1, ZeroGrad Bert),
     (1, Backward (Num (1 / 2))), (1, ClipGradNorm), (1, QueuePut None),
     (2, ZeroGrad Other), (2, ZeroGrad Bert),
     (2, Backward (Num (1 / 2))), (2, ClipGradNorm), (2, OptStep Other),
     (2, OptStep Bert), (2, TorchSave ''run/agent_state.iter2.bin''),
     (2, QueuePut (Some ''run/agent_state.iter2.bin'')),
     (2, SlotWrite ''run/agent_state.iter2.bin''), (3, ZeroGrad Other),
     (3, ZeroGrad Bert), (3, Backward (Num (1 / 2))), (3, ClipGradNorm),
     (3, QueuePut (Some ''run/agent_state.iter2.bin'')),
     (3, SlotWrite ''run/agent_state.iter2.bin''), (4, ZeroGrad Other),
     (4, ZeroGrad Bert), (4, Backward (Num (1 / 2))), (4, ClipGradNorm),
     (4, OptStep Other), (4, OptStep Bert),
     (4, TorchSave ''run/agent_state.iter4.bin''),
     (4, QueuePut (Some ''run/agent_state.iter4.bin'')),
     (4, SlotWrite ''run/agent_state.iter4.bin''),
     (4, OsRemove ''run/agent_state.iter2.bin'')]\<rparr>"
  by (simp add: train_def demo_defs accum_config_def step_defs Let_def insert_Diff_if)

lemma freeze_run:
  "train freeze_config demo_batches demo_learner =
     Stopped
     \<lparr>train_iter = 4, cum_loss = Num 0, cum_examples = 0,
     current_model_path = Some ''run/agent_state.iter4.bin'',
     checkpoint_queue =
     [None, Some ''run/agent_state.iter2.bin'',
     Some ''run/agent_state.iter2.bin'',
     Some ''run/agent_state.iter4.bin''],
     eval_msg_val = Some ''run/agent_state.iter4.bin'', actor_num = 1,
     shared_program_cache = True,
     ckpt_files = {''run/agent_state.iter4.bin''},
     trace =
     [(1, ZeroGrad Other), (1, ZeroGrad Bert),
     (1, Backward (Num (1 / 2))), (1, ClipGradNorm), (1, QueuePut None),
     (2, ZeroGrad Other), (2, ZeroGrad Bert),
     (2, Backward (Num (1 / 2))), (2, ClipGradNorm), (2, OptStep Other),
     (2, TorchSave ''run/agent_state.iter2.bin''),
     (2, QueuePut (Some ''run/agent_state.iter2.bin'')),
     (2, SlotWrite ''run/agent_state.iter2.bin''), (3, ZeroGrad Other),
     (3, ZeroGrad Bert), (3, Backward (Num (1 / 2))), (3, ClipGradNorm),
     (3, QueuePut (Some ''run/agent_state.iter2.bin'')),
     (3, SlotWrite ''run/agent_state.iter2.bin''), (4, ZeroGrad Other),
     (4, ZeroGrad Bert), (4, Backward (Num (1 / 2))), (4, ClipGradNorm),
     (4, OptStep Other), (4, OptStep Bert),
     (4, TorchSave ''run/agent_state.iter4.bin''),
     (4, QueuePut (Some ''run/agent_state.iter4.bin'')),
     (4, SlotWrite ''run/agent_state.iter4.bin''),
     (4, OsRemove ''run/agent_state.iter2.bin'')]\<rparr>"
  by (simp add: train_def demo_defs freeze_config_def step_defs Let_def insert_Diff_if)

lemma thaw_run:
  "train thaw_config demo_batches demo_learner =
     Stopped
     \<lparr>train_iter = 4, cum_loss = Num 0, cum_examples = 0,
     current_model_path = Some ''run/agent_state.iter4.bin'',
     checkpoint_queue =
     [None, Some ''run/agent_state.iter2.bin'',
     Some ''run/agent_state.iter2.bin'',
     Some ''run/agent_state.iter4.bin''],
     eval_msg_val = Some ''run/agent_state.iter4.bin'', actor_num = 1,
     shared_program_cache = True,
     ckpt_files = {''run/agent_state.iter4.bin''},
     trace =
     [(1, ZeroGrad Other), (1, ZeroGrad Bert),
     (1, Backward (Num (1 / 2))), (1, ClipGradNorm), (1, QueuePut None),
     (2, ZeroGrad Other), (2, ZeroGrad Bert),
     (2, Backward (Num (1 / 2))), (2, ClipGradNorm), (2, OptStep Other),
     (2, NewAdam), (2, TorchSave ''run/agent_state.iter2.bin''),
     (2, QueuePut (Some ''run/agent_state.iter2.bin'')),
     (2, SlotWrite ''run/agent_state.iter2.bin''), (3, ZeroGrad Other),
     (3, ZeroGrad Bert), (3, Backward (Num (1 / 2))), (3, ClipGradNorm),
     (3, QueuePut (Some ''run/agent_state.iter2.bin'')),
     (3, SlotWrite ''run/agent_state.iter2.bin''), (4, ZeroGrad Other),
     (4, ZeroGrad Bert), (4, Backward (Num (1 / 2))), (4, ClipGradNorm),
     (4, OptStep Other), (4, OptStep Bert),
     (4, TorchSave ''run/agent_state.iter4.bin''),
     (4, QueuePut (Some ''run/agent_state.iter4.bin'')),
     (4, SlotWrite ''run/agent_state.iter4.bin''),
     (4, OsRemove ''run/agent_state.iter2.bin'')]\<rparr>"
  by (simp add: train_def demo_defs thaw_config_def step_defs Let_def insert_Diff_if)

lemma empty_step:
  "train_step demo_config empty_input demo_learner =
     Ok \<lparr>train_iter = 1, cum_loss = NaN, cum_examples = 0,
         current_model_path = None, checkpoint_queue = [None],
         eval_msg_val = Some [], actor_num = 1, shared_program_cache = True,
         ckpt_files = {},
         trace =
           [(1, ZeroGrad Other), (1, ZeroGrad Bert), (1, Backward NaN),
            (1, ClipGradNorm), (1, OptStep Other), (1, OptStep Bert),
            (1, QueuePut None)]\<rparr>"
  by (simp add: demo_defs empty_input_def step_defs Let_def)

lemma no_envs_step:
  "train_step demo_config no_envs_input (state_of (train_step demo_config demo_input demo_learner)) =
     Abort ZeroDivisionError
      \<lparr>train_iter = 2, cum_loss = Num 0, cum_examples = 0,
         current_model_path = Some ''run/agent_state.iter2.bin'',
         checkpoint_queue = [None, Some ''run/agent_state.iter2.bin''],
         eval_msg_val = Some ''run/agent_state.iter2.bin'', actor_num = 1,
         shared_program_cache = True,
         ckpt_files = {''run/agent_state.iter2.bin''},
         trace =
           [(1, ZeroGrad Other), (1, ZeroGrad Bert), (1, Backward (Num 1)),
            (1, ClipGradNorm), (1, OptStep Other), (1, OptStep Bert),
            (1, QueuePut None), (2, ZeroGrad Other), (2, ZeroGrad Bert),
            (2, Backward (Num 1)), (2, ClipGradNorm), (2, OptStep Other),
            (2, OptStep Bert), (2, TorchSave ''run/agent_state.iter2.bin''),
            (2, QueuePut (Some ''run/agent_state.iter2.bin'')),
            (2, SlotWrite ''run/agent_state.iter2.bin'')]\<rparr>"
  by (simp add: demo_defs no_envs_input_def step_defs Let_def)

lemma first_step_counter:
  "train_iter (state_of (train_step demo_config demo_input demo_learner)) = 1"
  by (simp add: train_step_def iteration_body_state(1)) (simp add: demo_defs)

section \<open>Checkpoint publication\<close>

text \<open>
  How a publication can end, with the calls it logged and the files, queue and message
  variable it leaves: the write refused; the slot write raising after the put; the slot
  written and either nothing to remove or the removal raising; the previous file removed.
\<close>

lemma publication_outcomes:
  fixes cfg ok n s
  defines "r \<equiv> state_of (update_model_to_actors cfg ok n s)"
    and "p \<equiv> model_save_path cfg n"
  shows "(\<not> ok \<and> trace r = trace s @ map (Pair (train_iter s)) []
            \<and> ckpt_files r = ckpt_files s \<and> checkpoint_queue r = checkpoint_queue s
            \<and> eval_msg_val r = eval_msg_val s)
         \<or> (ok \<and> trace r = trace s @ map (Pair (train_iter s)) [TorchSave p, QueuePut (Some p)]
            \<and> ckpt_files r = insert p (ckpt_files s)
            \<and> checkpoint_queue r = checkpoint_queue s @ [Some p]
            \<and> eval_msg_val r = eval_msg_val s)
         \<or> (ok \<and> trace r = trace s
                   @ map (Pair (train_iter s)) [TorchSave p, QueuePut (Some p), SlotWrite p]
            \<and> ckpt_files r = insert p (ckpt_files s)
            \<and> checkpoint_queue r = checkpoint_queue s @ [Some p]
            \<and> eval_msg_val r = Some p)
         \<or> (ok \<and> (\<exists>q. current_model_path s = Some q
                 \<and> trace r = trace s
                     @ map (Pair (train_iter s))
                         [TorchSave p, QueuePut (Some p), SlotWrite p, OsRemove q]
                 \<and> ckpt_files r = insert p (ckpt_files s) - {q})
            \<and> checkpoint_queue r = checkpoint_queue s @ [Some p]
            \<and> eval_msg_val r = Some p)"
  unfolding r_def p_def
  by (cases "current_model_path s")
     (auto simp: update_model_to_actors_def torch_save_def push_new_model_def os_remove_def
        Let_def model_save_path_nonempty split: option.splits if_splits)

lemma publication_log_order:
  "published_live {} (new_calls s (state_of (update_model_to_actors cfg ok n s)))"
  using publication_outcomes[where cfg = cfg and ok = ok and n = n and s = s]
  by (elim disjE conjE exE) (simp_all add: new_calls_def)

lemma publication_log_disk:
  "ckpt_files (state_of (update_model_to_actors cfg ok n s))
     = live_files (ckpt_files s) (new_calls s (state_of (update_model_to_actors cfg ok n s)))"
  using publication_outcomes[where cfg = cfg and ok = ok and n = n and s = s]
  by (elim disjE conjE exE) (simp_all add: new_calls_def)

lemma publication_log_queue:
  "checkpoint_queue (state_of (update_model_to_actors cfg ok n s))
     = checkpoint_queue s @ queue_puts (new_calls s (state_of (update_model_to_actors cfg ok n s)))"
  using publication_outcomes[where cfg = cfg and ok = ok and n = n and s = s]
  by (elim disjE conjE exE) (simp_all add: new_calls_def)

lemma publication_log_slot:
  "eval_msg_val (state_of (update_model_to_actors cfg ok n s))
     = slot_after (eval_msg_val s) (new_calls s (state_of (update_model_to_actors cfg ok n s)))"
  using publication_outcomes[where cfg = cfg and ok = ok and n = n and s = s]
  by (elim disjE conjE exE) (simp_all add: new_calls_def)

lemma published_file_on_disk:
  assumes "checkpoint_queue (state_of (update_model_to_actors cfg ok n s)) \<noteq> checkpoint_queue s
           \<or> eval_msg_val (state_of (update_model_to_actors cfg ok n s)) \<noteq> eval_msg_val s"
  shows "ok"
    and "model_save_path cfg n \<in> ckpt_files (state_of (update_model_to_actors cfg ok n s))
         \<or> current_model_path s = Some (model_save_path cfg n)"
proof -
  show "ok"
    using publication_outcomes[where cfg = cfg and ok = ok and n = n and s = s] assms by (elim disjE conjE exE) simp_all
  show "model_save_path cfg n \<in> ckpt_files (state_of (update_model_to_actors cfg ok n s))
         \<or> current_model_path s = Some (model_save_path cfg n)"
    using publication_outcomes[where cfg = cfg and ok = ok and n = n and s = s] assms by (elim disjE conjE exE) auto
qed

text \<open>
  C1. In every call of \<open>update_model_to_actors\<close> the checkpoint file is on disk
  before its path is put on the checkpoint queue or written to the evaluator's message
  variable. The calls the publication adds to the log pass the check
  \<open>published_live\<close> from the empty set of files, and the log is a true account
  of the state: replayed on the files, the queue and the message variable the call started
  from, it gives the files, the queue and the message variable the call leaves. Whenever the
  call changed the queue or the message variable, the write was accepted and the file is
  there at the end, unless it was the previous current path and line 214 removed it. A
  refused write ends the call with nothing published; a call that returns has logged the
  save, the put and the slot write in this order, has the path on the queue and in the
  message variable, and leaves the file on disk.
\<close>

theorem save_precedes_publication:
  "published_live {} (new_calls s (state_of (update_model_to_actors cfg ok n s)))
   \<and> ckpt_files (state_of (update_model_to_actors cfg ok n s))
       = live_files (ckpt_files s) (new_calls s (state_of (update_model_to_actors cfg ok n s)))
   \<and> checkpoint_queue (state_of (update_model_to_actors cfg ok n s))
       = checkpoint_queue s
         @ queue_puts (new_calls s (state_of (update_model_to_actors cfg ok n s)))
   \<and> eval_msg_val (state_of (update_model_to_actors cfg ok n s))
       = slot_after (eval_msg_val s) (new_calls s (state_of (update_model_to_actors cfg ok n s)))
   \<and> (checkpoint_queue (state_of (update_model_to_actors cfg ok n s)) \<noteq> checkpoint_queue s
        \<or> eval_msg_val (state_of (update_model_to_actors cfg ok n s)) \<noteq> eval_msg_val s
       \<longrightarrow> ok \<and> (model_save_path cfg n \<in> ckpt_files (state_of (update_model_to_actors cfg ok n s))
                  \<or> current_model_path s = Some (model_save_path cfg n)))
   \<and> (\<not> ok \<longrightarrow> update_model_to_actors cfg ok n s = Abort OSError s)
   \<and> (\<forall>s'. update_model_to_actors cfg ok n s = Ok s' \<longrightarrow>
         take 3 (new_calls s s')
           = [TorchSave (model_save_path cfg n), QueuePut (Some (model_save_path cfg n)),
              SlotWrite (model_save_path cfg n)]
         \<and> checkpoint_queue s' = checkpoint_queue s @ [Some (model_save_path cfg n)]
         \<and> eval_msg_val s' = Some (model_save_path cfg n)
         \<and> (current_model_path s \<noteq> Some (model_save_path cfg n)
              \<longrightarrow> model_save_path cfg n \<in> ckpt_files s'))"
proof (intro conjI allI impI)
  show "\<not> ok \<Longrightarrow> update_model_to_actors cfg ok n s = Abort OSError s"
    by (simp add: update_model_to_actors_def torch_save_def)
next
  fix s'
  assume ok: "update_model_to_actors cfg ok n s = Ok s'"
  show "take 3 (new_calls s s')
           = [TorchSave (model_save_path cfg n), QueuePut (Some (model_save_path cfg n)),
              SlotWrite (model_save_path cfg n)]"
    using update_model_to_actors_Ok(11)[OF ok] by (simp add: new_calls_def)
  show "checkpoint_queue s' = checkpoint_queue s @ [Some (model_save_path cfg n)]"
    by (rule update_model_to_actors_Ok(4)[OF ok])
  show "eval_msg_val s' = Some (model_save_path cfg n)"
    by (rule update_model_to_actors_Ok(5)[OF ok])
  assume "current_model_path s \<noteq> Some (model_save_path cfg n)"
  then show "model_save_path cfg n \<in> ckpt_files s'"
    using update_model_to_actors_Ok(2)[OF ok] by (cases "current_model_path s") auto
next
  show "published_live {} (new_calls s (state_of (update_model_to_actors cfg ok n s)))"
    by (rule publication_log_order)
  show "ckpt_files (state_of (update_model_to_actors cfg ok n s))
       = live_files (ckpt_files s) (new_calls s (state_of (update_model_to_actors cfg ok n s)))"
    by (rule publication_log_disk)
  show "checkpoint_queue (state_of (update_model_to_actors cfg ok n s))
       = checkpoint_queue s
         @ queue_puts (new_calls s (state_of (update_model_to_actors cfg ok n s)))"
    by (rule publication_log_queue)
  show "eval_msg_val (state_of (update_model_to_actors cfg ok n s))
       = slot_after (eval_msg_val s) (new_calls s (state_of (update_model_to_actors cfg ok n s)))"
    by (rule publication_log_slot)
next
  assume h: "checkpoint_queue (state_of (update_model_to_actors cfg ok n s)) \<noteq> checkpoint_queue s
        \<or> eval_msg_val (state_of (update_model_to_actors cfg ok n s)) \<noteq> eval_msg_val s"
  show "ok" by (rule published_file_on_disk(1)[OF h])
  show "model_save_path cfg n \<in> ckpt_files (state_of (update_model_to_actors cfg ok n s))
                  \<or> current_model_path s = Some (model_save_path cfg n)"
    by (rule published_file_on_disk(2)[OF h])
qed

lemma demo_publication:
  "update_model_to_actors demo_config True 2 demo_learner =
     Ok \<lparr>train_iter = 0, cum_loss = Num 0, cum_examples = 0,
         current_model_path = Some ''run/agent_state.iter2.bin'',
         checkpoint_queue = [Some ''run/agent_state.iter2.bin''],
         eval_msg_val = Some ''run/agent_state.iter2.bin'', actor_num = 1,
         shared_program_cache = True,
         ckpt_files = {''run/agent_state.iter2.bin''},
         trace =
           [(0, TorchSave ''run/agent_state.iter2.bin''),
            (0, QueuePut (Some ''run/agent_state.iter2.bin'')),
            (0, SlotWrite ''run/agent_state.iter2.bin'')]\<rparr>"
  by (simp add: demo_defs step_defs Let_def)

theorem save_precedes_publication_witness:
  "published_live {}
     (new_calls demo_learner (state_of (update_model_to_actors demo_config True 2 demo_learner)))
   \<and> new_calls demo_learner (state_of (update_model_to_actors demo_config True 2 demo_learner))
       = [TorchSave ''run/agent_state.iter2.bin'', QueuePut (Some ''run/agent_state.iter2.bin''),
          SlotWrite ''run/agent_state.iter2.bin'']
   \<and> ckpt_files demo_learner = {}
   \<and> ckpt_files (state_of (update_model_to_actors demo_config True 2 demo_learner))
       = {''run/agent_state.iter2.bin''}
   \<and> checkpoint_queue (state_of (update_model_to_actors demo_config True 2 demo_learner))
       = [Some ''run/agent_state.iter2.bin'']
   \<and> checkpoint_queue (state_of (update_model_to_actors demo_config True 2 demo_learner))
       \<noteq> checkpoint_queue demo_learner
   \<and> eval_msg_val (state_of (update_model_to_actors demo_config True 2 demo_learner))
       = Some ''run/agent_state.iter2.bin''
   \<and> model_save_path demo_config 2
       \<in> ckpt_files (state_of (update_model_to_actors demo_config True 2 demo_learner))
   \<and> update_model_to_actors demo_config False 2 demo_learner = Abort OSError demo_learner
   \<and> error_of (update_model_to_actors demo_config True 2 demo_learner) = None"
  using save_precedes_publication[of demo_learner demo_config True 2]
    save_precedes_publication[of demo_learner demo_config False 2]
  by (simp add: demo_publication) (simp add: demo_defs step_defs new_calls_def)

text \<open>
  The same over a whole run, where the passes between two save boundaries publish the
  current path again: every path put on the queue or written to the message variable names
  a file that exists at that moment.
\<close>

lemma published_live_append:
  "published_live F (xs @ ys) \<longleftrightarrow> published_live F xs \<and> published_live (live_files F xs) ys"
  by (induction F xs rule: published_live.induct) auto

lemma live_files_append: "live_files F (xs @ ys) = live_files (live_files F xs) ys"
  by (induction F xs rule: live_files.induct) auto

lemma pub_inv_pass:
  assumes inv: "pub_inv cfg t" and b: "iteration_body cfg inp (begin_iteration t) = Ok t'"
  shows "pub_inv cfg t'"
proof -
  let ?L = "live_files {} (map snd (trace t))"
  from b obtain s1 s2 where o: "optimise cfg inp (begin_iteration t) = Ok s1"
    and p: "publish cfg inp s1 = Ok s2" and d: "dump_program_cache cfg inp s2 = Ok t'"
    and f1: "train_iter s1 = train_iter t + 1" "current_model_path s1 = current_model_path t"
    and f2: "train_iter t' = train_iter t + 1" "current_model_path t' = current_model_path s2"
    by (rule pass_fields)
  have pl: "published_live {} (map snd (trace t))" using inv by (simp add: pub_inv_def)
  from optimise_Ok(11)[OF o] obtain ev1 where t1: "trace s1 = trace t @ ev1"
    and e1: "published_live ?L (map snd ev1)" "live_files ?L (map snd ev1) = ?L"
    by (auto split: if_splits)
  from dump_program_cache_Ok(8)[OF d] obtain ev3 where t3: "trace t' = trace s2 @ ev3"
    and e3: "\<And>F. published_live F (map snd ev3)" "\<And>F. live_files F (map snd ev3) = F"
    by (cases "0 < save_program_cache_niter cfg
                \<and> train_iter s2 mod save_program_cache_niter cfg = 0") auto
  have pl1: "published_live {} (map snd (trace s1))"
    and l1: "live_files {} (map snd (trace s1)) = ?L"
    using pl t1 e1 by (simp_all add: published_live_append live_files_append)
  have "published_live {} (map snd (trace s2))
        \<and> (case current_model_path s2 of None \<Rightarrow> True
            | Some q \<Rightarrow> (\<exists>j. j \<le> train_iter t' \<and> q = model_save_path cfg j)
                         \<and> q \<in> live_files {} (map snd (trace s2)))"
  proof (cases "train_iter s1 mod save_every_niter cfg = 0")
    case False
    from publish_Ok(3)[OF p False] have push: "push_new_model (current_model_path t) s1 = Ok s2"
      using f1(2) by simp
    have c: "current_model_path s2 = current_model_path t"
      using push_new_model_Ok_fields(2)[OF push] f1(2) by simp
    note t2 = push_new_model_Ok(2)[OF push]
    show ?thesis
    proof (cases "current_model_path t")
      case None
      then show ?thesis using c t2 pl1 by (simp add: published_live_append)
    next
      case (Some q)
      then obtain j where j: "j \<le> train_iter t" "q = model_save_path cfg j" and q: "q \<in> ?L"
        using inv by (auto simp: pub_inv_def)
      have ex: "\<exists>j. j \<le> train_iter t' \<and> q = model_save_path cfg j"
        using j f2(1) by (intro exI[of _ j]) simp
      have ne: "q \<noteq> []" using j(2) by (simp add: model_save_path_nonempty)
      have t2': "map snd (trace s2) = map snd (trace s1) @ [QueuePut (Some q), SlotWrite q]"
        using t2 Some ne by simp
      have "published_live {} (map snd (trace s2))"
        unfolding t2' using pl1 l1 q by (simp add: published_live_append)
      moreover have "q \<in> live_files {} (map snd (trace s2))"
        unfolding t2' using l1 q by (simp add: live_files_append)
      ultimately show ?thesis using Some c ex by simp
    qed
  next
    case True
    let ?p = "model_save_path cfg (train_iter s1)"
    from publish_Ok(2)[OF p True]
    have u: "update_model_to_actors cfg (save_ok inp) (train_iter s1)
               (s1\<lparr>cum_loss := Num 0, cum_examples := 0\<rparr>) = Ok s2" by simp
    have c: "current_model_path s2 = Some ?p"
      using update_model_to_actors_Ok(1)[OF u] .
    have t2: "trace s2 = trace s1 @ [(train_iter s1, TorchSave ?p),
                               (train_iter s1, QueuePut (Some ?p)),
                               (train_iter s1, SlotWrite ?p)]
                      @ (if truthy (current_model_path t)
                         then [(train_iter s1, OsRemove (the (current_model_path t)))] else [])"
      using update_model_to_actors_Ok(11)[OF u] f1(2) by simp
    have neq: "current_model_path t = Some q \<Longrightarrow> q \<noteq> ?p" for q
    proof -
      assume "current_model_path t = Some q"
      then obtain j where "j \<le> train_iter t" "q = model_save_path cfg j"
        using inv by (auto simp: pub_inv_def)
      then show "q \<noteq> ?p"
        using f1(1) model_save_path_inj[of cfg j "train_iter s1"] by auto
    qed
    have t2': "map snd (trace s2) = map snd (trace s1)
                 @ [TorchSave ?p, QueuePut (Some ?p), SlotWrite ?p]
                 @ (if truthy (current_model_path t)
                    then [OsRemove (the (current_model_path t))] else [])"
      using t2 by simp
    have a: "published_live {} (map snd (trace s2))"
      unfolding t2' using pl1 by (simp add: published_live_append)
    have b: "?p \<in> live_files {} (map snd (trace s2))"
    proof (cases "current_model_path t")
      case None
      then show ?thesis unfolding t2' by (simp add: live_files_append)
    next
      case (Some q)
      then show ?thesis unfolding t2' using neq[OF Some] by (simp add: live_files_append)
    qed
    have ex: "\<exists>j. j \<le> train_iter t' \<and> ?p = model_save_path cfg j"
      using f1(1) f2(1) by (intro exI[of _ "train_iter s1"]) simp
    show ?thesis using a b c ex by simp
  qed
  then show ?thesis
    unfolding pub_inv_def using f2(2) t3 e3
    by (cases "current_model_path s2") (auto simp: published_live_append live_files_append)
qed

lemma run_publishes_saved_files:
  assumes "trace s = []" and "current_model_path s = None"
    and "\<not> raised (train cfg batches s)"
  shows "published_live {} (map snd (trace (run_state (train cfg batches s))))"
proof -
  let ?s0 = "s\<lparr>train_iter := 0, cum_loss := Num 0, cum_examples := 0\<rparr>"
  have I0: "pub_inv cfg ?s0" using assms(1,2) by (simp add: pub_inv_def)
  have nr: "\<not> raised (train_loop cfg batches ?s0)" using assms(3) by (simp add: train_def)
  from I0 _ nr obtain t where It: "pub_inv cfg t"
    and r: "train_loop cfg batches ?s0 = Stopped t
            \<or> train_loop cfg batches ?s0 = Waiting (begin_iteration t)"
    by (rule loop_invariant[where I = "pub_inv cfg"]) (rule pub_inv_pass)
  from It have pl: "published_live {} (map snd (trace t))" by (simp add: pub_inv_def)
  from r show ?thesis
  proof
    assume "train_loop cfg batches ?s0 = Stopped t"
    then show ?thesis using pl by (simp add: train_def)
  next
    assume "train_loop cfg batches ?s0 = Waiting (begin_iteration t)"
    then show ?thesis using pl by (simp add: train_def published_live_append)
  qed
qed

text \<open>
  Over a run the log stays a true account of the files: replayed on the files the run
  started with, the calls it logged give the files it leaves.
\<close>

lemma pass_log_disk:
  assumes b: "iteration_body cfg inp (begin_iteration t) = Ok t'"
    and inv: "ckpt_files t = live_files F (map snd (trace t))"
  shows "ckpt_files t' = live_files F (map snd (trace t'))"
proof -
  from b obtain s1 s2 where o: "optimise cfg inp (begin_iteration t) = Ok s1"
    and p: "publish cfg inp s1 = Ok s2" and d: "dump_program_cache cfg inp s2 = Ok t'"
    and f1: "ckpt_files s1 = ckpt_files t" "train_iter s1 = train_iter t + 1"
      "current_model_path s1 = current_model_path t"
    and f2: "ckpt_files t' = ckpt_files s2"
    by (rule pass_fields)
  from optimise_Ok(11)[OF o] have l1: "live_files F (map snd (trace s1)) = ckpt_files s1"
    using inv f1(1) by (auto simp: live_files_append split: if_splits)
  have l2: "live_files F (map snd (trace s2)) = ckpt_files s2"
  proof (cases "train_iter s1 mod save_every_niter cfg = 0")
    case False
    from publish_Ok(3)[OF p False] have push: "push_new_model (current_model_path s1) s1 = Ok s2" .
    show ?thesis
      using push_new_model_Ok(2)[OF push] push_new_model_Ok_fields(3)[OF push] l1
      by (simp add: live_files_append)
  next
    case True
    from publish_Ok(2)[OF p True]
    have u: "update_model_to_actors cfg (save_ok inp) (train_iter s1)
               (s1\<lparr>cum_loss := Num 0, cum_examples := 0\<rparr>) = Ok s2" by simp
    show ?thesis
      using update_model_to_actors_Ok(2)[OF u] update_model_to_actors_Ok(11)[OF u] l1
      by (simp add: live_files_append)
  qed
  show ?thesis
    using dump_program_cache_Ok(8)[OF d] l2 f2 by (simp add: live_files_append)
qed

lemma run_log_matches_disk:
  assumes "trace s = []" and "\<not> raised (train cfg batches s)"
  shows "ckpt_files (run_state (train cfg batches s))
           = live_files (ckpt_files s) (map snd (trace (run_state (train cfg batches s))))"
proof -
  let ?s0 = "s\<lparr>train_iter := 0, cum_loss := Num 0, cum_examples := 0\<rparr>"
  let ?I = "\<lambda>t. ckpt_files t = live_files (ckpt_files s) (map snd (trace t))"
  have I0: "?I ?s0" using assms(1) by simp
  have nr: "\<not> raised (train_loop cfg batches ?s0)" using assms(2) by (simp add: train_def)
  have step: "\<And>inp t t'. ?I t \<Longrightarrow> train_iter t < max_train_step cfg \<Longrightarrow>
                 iteration_body cfg inp (begin_iteration t) = Ok t' \<Longrightarrow> ?I t'"
    by (rule pass_log_disk)
  from I0 step nr obtain t where It: "?I t"
    and r: "train_loop cfg batches ?s0 = Stopped t
            \<or> train_loop cfg batches ?s0 = Waiting (begin_iteration t)"
    by (rule loop_invariant[where I = ?I])
  from r show ?thesis
  proof
    assume "train_loop cfg batches ?s0 = Stopped t"
    then show ?thesis using It by (simp add: train_def)
  next
    assume "train_loop cfg batches ?s0 = Waiting (begin_iteration t)"
    then show ?thesis using It by (simp add: train_def live_files_append)
  qed
qed

lemma int_mod_succ:
  fixes t S :: int
  assumes "0 < S" and "(t + 1) mod S \<noteq> 0"
  shows "t + 1 - (t + 1) mod S = t - t mod S"
proof -
  have "(t + 1) mod S = (t mod S + 1) mod S"
    by (simp add: mod_add_left_eq)
  moreover have "0 \<le> t mod S" "t mod S < S" using assms(1) by simp_all
  ultimately have "t mod S + 1 < S"
    using assms(2) by (cases "t mod S + 1 = S") auto
  then have "(t mod S + 1) mod S = t mod S + 1"
    using \<open>0 \<le> t mod S\<close> by (simp add: mod_pos_pos_trivial)
  with \<open>(t + 1) mod S = (t mod S + 1) mod S\<close> show ?thesis by simp
qed

lemma ckpt_inv_pass:
  assumes inv: "ckpt_inv cfg t" and b: "iteration_body cfg inp (begin_iteration t) = Ok t'"
  shows "ckpt_inv cfg t'"
proof -
  let ?S = "save_every_niter cfg"
  from b obtain s1 s2 where p: "publish cfg inp s1 = Ok s2"
    and f1: "train_iter s1 = train_iter t + 1" "current_model_path s1 = current_model_path t"
      "ckpt_files s1 = ckpt_files t" "saved_paths (trace s1) = saved_paths (trace t)"
    and f2: "train_iter t' = train_iter t + 1" "current_model_path t' = current_model_path s2"
      "ckpt_files t' = ckpt_files s2" "saved_paths (trace t') = saved_paths (trace s2)"
    by (rule pass_fields)
  have nonneg: "0 \<le> train_iter t" using inv by (simp add: ckpt_inv_def)
  show ?thesis
  proof (cases "train_iter s1 mod ?S = 0")
    case False
    from publish_Ok(3)[OF p False] have push: "push_new_model (current_model_path s1) s1 = Ok s2" .
    have c: "current_model_path s2 = current_model_path t"
      using push_new_model_Ok_fields(2)[OF push] f1 by simp
    have f: "ckpt_files s2 = ckpt_files t"
      using push_new_model_Ok_fields(3)[OF push] f1 by simp
    have sp: "saved_paths (trace s2) = saved_paths (trace t)"
      using push_new_model_Ok(2)[OF push] f1(4) by (simp add: saved_paths_append)
    have part1: "case current_model_path t' of
          None \<Rightarrow> saved_paths (trace t') = {}
        | Some p \<Rightarrow> (\<exists>j. j \<le> train_iter t' \<and> p = model_save_path cfg j)
                     \<and> saved_paths (trace t') \<inter> ckpt_files t' = {p}"
    proof (cases "current_model_path t")
      case None
      then show ?thesis using inv c f sp f2 by (simp add: ckpt_inv_def)
    next
      case (Some q)
      then obtain j where "j \<le> train_iter t" "q = model_save_path cfg j"
        and "saved_paths (trace t) \<inter> ckpt_files t = {q}"
        using inv by (auto simp: ckpt_inv_def)
      then have "j \<le> train_iter t'" using f2(1) by simp
      then show ?thesis
        using Some c f sp f2 \<open>q = model_save_path cfg j\<close>
          \<open>saved_paths (trace t) \<inter> ckpt_files t = {q}\<close>
        by auto
    qed
    have part2: "current_model_path t' =
            (if train_iter t' < ?S then None
             else Some (model_save_path cfg (train_iter t' - train_iter t' mod ?S)))"
      if pos: "0 < ?S"
    proof -
      have old: "current_model_path t =
            (if train_iter t < ?S then None
             else Some (model_save_path cfg (train_iter t - train_iter t mod ?S)))"
        using inv pos by (simp add: ckpt_inv_def)
      have ne: "(train_iter t + 1) mod ?S \<noteq> 0" using False f1(1) by simp
      have eq: "train_iter t + 1 - (train_iter t + 1) mod ?S = train_iter t - train_iter t mod ?S"
        using int_mod_succ[OF pos ne] .
      have "train_iter t + 1 \<noteq> ?S" using ne by auto
      then have lt: "train_iter t + 1 < ?S \<longleftrightarrow> train_iter t < ?S" by auto
      have "current_model_path t' = current_model_path t" using c f2(2) by simp
      also note old
      also have "(if train_iter t < ?S then None
             else Some (model_save_path cfg (train_iter t - train_iter t mod ?S)))
          = (if train_iter t + 1 < ?S then None
             else Some (model_save_path cfg (train_iter t + 1 - (train_iter t + 1) mod ?S)))"
        by (simp only: eq lt)
      finally show ?thesis by (simp only: f2(1))
    qed
    show ?thesis
      unfolding ckpt_inv_def using part1 part2 nonneg f2(1) by simp
  next
    case True
    let ?p = "model_save_path cfg (train_iter s1)"
    from publish_Ok(2)[OF p True]
    have u: "update_model_to_actors cfg (save_ok inp) (train_iter s1)
               (s1\<lparr>cum_loss := Num 0, cum_examples := 0\<rparr>) = Ok s2" by simp
    have c: "current_model_path s2 = Some ?p"
      using update_model_to_actors_Ok(1)[OF u] .
    have f: "ckpt_files s2 = insert ?p (ckpt_files t)
               - (if truthy (current_model_path t) then {the (current_model_path t)} else {})"
      using update_model_to_actors_Ok(2)[OF u] f1 by simp
    have sp: "saved_paths (trace s2) = insert ?p (saved_paths (trace t))"
      using update_model_to_actors_Ok(11)[OF u] f1(4) by (auto simp: saved_paths_append)
    have "saved_paths (trace s2) \<inter> ckpt_files s2 = {?p}"
    proof (cases "current_model_path t")
      case None
      then have "saved_paths (trace t) = {}" using inv by (simp add: ckpt_inv_def)
      then show ?thesis using None f sp by simp
    next
      case (Some q)
      then obtain j where j: "j \<le> train_iter t" "q = model_save_path cfg j"
        and one: "saved_paths (trace t) \<inter> ckpt_files t = {q}"
        using inv by (auto simp: ckpt_inv_def)
      have "q \<noteq> []" using j(2) by (simp add: model_save_path_nonempty)
      moreover have "q \<noteq> ?p"
        using j f1(1) model_save_path_inj[of cfg j "train_iter s1"] by auto
      ultimately show ?thesis using Some f sp one by auto
    qed
    then have part1: "case current_model_path t' of
          None \<Rightarrow> saved_paths (trace t') = {}
        | Some p \<Rightarrow> (\<exists>j. j \<le> train_iter t' \<and> p = model_save_path cfg j)
                     \<and> saved_paths (trace t') \<inter> ckpt_files t' = {p}"
      using c f1(1) f2 by auto
    have part2: "current_model_path t' =
            (if train_iter t' < ?S then None
             else Some (model_save_path cfg (train_iter t' - train_iter t' mod ?S)))"
      if pos: "0 < ?S"
    proof -
      have "?S dvd train_iter t + 1" using True f1(1) by (simp add: mod_eq_0_iff_dvd)
      then have "?S \<le> train_iter t + 1" using nonneg by (intro zdvd_imp_le) auto
      then show ?thesis using True c f1(1) f2 by simp
    qed
    show ?thesis
      unfolding ckpt_inv_def using part1 part2 nonneg f2(1) by simp
  qed
qed

lemma one_current_checkpoint_loop:
  assumes "train_iter s = 0" and "trace s = []" and "current_model_path s = None"
    and "\<not> raised (train_loop cfg inputs s)"
  shows "(case current_model_path (run_state (train_loop cfg inputs s)) of
            None \<Rightarrow> saved_paths (trace (run_state (train_loop cfg inputs s))) = {}
          | Some p \<Rightarrow> saved_paths (trace (run_state (train_loop cfg inputs s)))
                        \<inter> ckpt_files (run_state (train_loop cfg inputs s)) = {p})
         \<and> (0 < save_every_niter cfg \<longrightarrow>
              current_model_path (run_state (train_loop cfg inputs s)) =
                (if passes_done (train_loop cfg inputs s) < save_every_niter cfg then None
                 else Some (model_save_path cfg
                        (passes_done (train_loop cfg inputs s)
                          - passes_done (train_loop cfg inputs s) mod save_every_niter cfg))))"
proof -
  have I0: "ckpt_inv cfg s" using assms(1-3) by (simp add: ckpt_inv_def)
  from I0 _ assms(4) obtain t where It: "ckpt_inv cfg t"
    and r: "train_loop cfg inputs s = Stopped t \<or> train_loop cfg inputs s = Waiting (begin_iteration t)"
    by (rule loop_invariant[where I = "ckpt_inv cfg"]) (rule ckpt_inv_pass)
  have sp: "saved_paths (trace (begin_iteration t)) = saved_paths (trace t)"
    by (simp add: saved_paths_append)
  from It have A: "case current_model_path t of
            None \<Rightarrow> saved_paths (trace t) = {}
          | Some p \<Rightarrow> saved_paths (trace t) \<inter> ckpt_files t = {p}"
    by (cases "current_model_path t") (simp_all add: ckpt_inv_def)
  from It have B: "0 < save_every_niter cfg \<longrightarrow>
          current_model_path t =
            (if train_iter t < save_every_niter cfg then None
             else Some (model_save_path cfg (train_iter t - train_iter t mod save_every_niter cfg)))"
    by (simp add: ckpt_inv_def)
  from r show ?thesis
  proof
    assume "train_loop cfg inputs s = Stopped t"
    then have rs: "run_state (train_loop cfg inputs s) = t"
      "passes_done (train_loop cfg inputs s) = train_iter t"
      by simp_all
    show ?thesis unfolding rs using A B by (rule conjI)
  next
    assume "train_loop cfg inputs s = Waiting (begin_iteration t)"
    then have rs: "run_state (train_loop cfg inputs s) = begin_iteration t"
      "passes_done (train_loop cfg inputs s) = train_iter t"
      by simp_all
    have A': "case current_model_path (begin_iteration t) of
            None \<Rightarrow> saved_paths (trace (begin_iteration t)) = {}
          | Some p \<Rightarrow> saved_paths (trace (begin_iteration t)) \<inter> ckpt_files (begin_iteration t) = {p}"
      using A by (cases "current_model_path t") (simp_all add: saved_paths_append)
    have B': "0 < save_every_niter cfg \<longrightarrow>
          current_model_path (begin_iteration t) =
            (if train_iter t < save_every_niter cfg then None
             else Some (model_save_path cfg (train_iter t - train_iter t mod save_every_niter cfg)))"
      using B by simp
    show ?thesis unfolding rs using A' B' by (rule conjI)
  qed
qed

text \<open>
  C2. In a run of \<open>train\<close> that does not raise, started with an empty log and no
  current checkpoint: as long as \<open>current_model_path\<close> is \<open>None\<close>
  the run has written no checkpoint file, and afterwards exactly one of the checkpoint files
  the run wrote exists, the one \<open>current_model_path\<close> names. With a positive
  \<open>save_every_niter\<close> that path is the one written at the last step that was a
  multiple of it: every save boundary removes the file that was current and makes the new
  one current.
\<close>

theorem one_current_checkpoint_file:
  assumes "trace s = []" and "current_model_path s = None"
    and "\<not> raised (train cfg batches s)"
  shows "(case current_model_path (run_state (train cfg batches s)) of
            None \<Rightarrow> saved_paths (trace (run_state (train cfg batches s))) = {}
          | Some p \<Rightarrow> saved_paths (trace (run_state (train cfg batches s)))
                        \<inter> ckpt_files (run_state (train cfg batches s)) = {p})
         \<and> (0 < save_every_niter cfg \<longrightarrow>
              current_model_path (run_state (train cfg batches s)) =
                (if passes_done (train cfg batches s) < save_every_niter cfg then None
                 else Some (model_save_path cfg
                        (passes_done (train cfg batches s)
                          - passes_done (train cfg batches s) mod save_every_niter cfg))))"
  unfolding train_def
  using assms(1,2) assms(3)[unfolded train_def]
  by (intro one_current_checkpoint_loop) simp_all

theorem one_current_checkpoint_file_witness:
  "trace demo_learner = [] \<and> current_model_path demo_learner = None
   \<and> \<not> raised (train demo_config demo_batches demo_learner)
   \<and> 0 < save_every_niter demo_config
   \<and> passes_done (train demo_config demo_batches demo_learner) = 4
   \<and> current_model_path (run_state
        (train demo_config demo_batches demo_learner))
       = Some ''run/agent_state.iter4.bin''
   \<and> saved_paths (trace (run_state
        (train demo_config demo_batches demo_learner)))
       = {''run/agent_state.iter2.bin'', ''run/agent_state.iter4.bin''}
   \<and> saved_paths (trace (run_state
        (train demo_config demo_batches demo_learner)))
       \<inter> ckpt_files (run_state
        (train demo_config demo_batches demo_learner))
       = {''run/agent_state.iter4.bin''}"
  using one_current_checkpoint_file[of demo_learner demo_config demo_batches]
  by (simp add: demo_run) (simp add: demo_defs)

lemma republish_loop:
  assumes "train_iter s = 0" and "current_model_path s = None"
    and "\<not> raised (train_loop cfg inputs s)"
    and "passes_done (train_loop cfg inputs s) < save_every_niter cfg"
  shows "checkpoint_queue (run_state (train_loop cfg inputs s))
           = checkpoint_queue s @ replicate (nat (passes_done (train_loop cfg inputs s))) None
         \<and> eval_msg_val (run_state (train_loop cfg inputs s)) = eval_msg_val s
         \<and> current_model_path (run_state (train_loop cfg inputs s)) = None"
proof -
  define I where "I t \<longleftrightarrow> 0 \<le> train_iter t \<and>
      (train_iter t < save_every_niter cfg \<longrightarrow>
         checkpoint_queue t = checkpoint_queue s @ replicate (nat (train_iter t)) None
         \<and> eval_msg_val t = eval_msg_val s \<and> current_model_path t = None)"
    for t :: learner
  have I0: "I s" using assms(1,2) by (simp add: I_def)
  have step: "I t'" if "I t" and b: "iteration_body cfg inp (begin_iteration t) = Ok t'"
    for inp t t'
  proof -
    from b obtain s1 s2 where p: "publish cfg inp s1 = Ok s2"
      and f1: "train_iter s1 = train_iter t + 1" "current_model_path s1 = current_model_path t"
        "checkpoint_queue s1 = checkpoint_queue t" "eval_msg_val s1 = eval_msg_val t"
      and f2: "train_iter t' = train_iter t + 1" "current_model_path t' = current_model_path s2"
        "checkpoint_queue t' = checkpoint_queue s2" "eval_msg_val t' = eval_msg_val s2"
      by (rule pass_fields)
    have nonneg: "0 \<le> train_iter t" using \<open>I t\<close> by (simp add: I_def)
    show ?thesis
    proof (cases "train_iter t' < save_every_niter cfg")
      case False
      then show ?thesis using nonneg f2(1) by (simp add: I_def)
    next
      case True
      then have lt: "train_iter t < save_every_niter cfg" using f2(1) by simp
      with \<open>I t\<close> have old: "checkpoint_queue t = checkpoint_queue s @ replicate (nat (train_iter t)) None"
        "eval_msg_val t = eval_msg_val s" "current_model_path t = None"
        by (simp_all add: I_def)
      have "train_iter s1 mod save_every_niter cfg = train_iter s1"
        using True f1(1) f2(1) nonneg by (simp add: mod_pos_pos_trivial)
      then have nb: "train_iter s1 mod save_every_niter cfg \<noteq> 0"
        using f1(1) nonneg by simp
      from publish_Ok(3)[OF p nb] have push: "push_new_model None s1 = Ok s2"
        using f1(2) old(3) by simp
      have q: "checkpoint_queue s2 = checkpoint_queue s1 @ [None]"
        using push_new_model_fields(5)[of None s1] push by simp
      have c: "current_model_path s2 = current_model_path s1"
        using push_new_model_fields(4)[of None s1] push by simp
      have e: "eval_msg_val s2 = eval_msg_val s1"
        using push_new_model_Ok(1)[OF push] by simp
      have "replicate (nat (train_iter t + 1)) (None :: string option)
              = replicate (nat (train_iter t)) None @ [None]"
        using nonneg by (simp add: nat_add_distrib replicate_append_same)
      then show ?thesis
        using q c e f1 f2 old nonneg by (simp add: I_def)
    qed
  qed
  from I0 step assms(3) obtain t where It: "I t"
    and r: "train_loop cfg inputs s = Stopped t \<or> train_loop cfg inputs s = Waiting (begin_iteration t)"
    by (rule loop_invariant[where I = I]) blast+
  from r assms(4) have pd: "passes_done (train_loop cfg inputs s) = train_iter t"
    and lt: "train_iter t < save_every_niter cfg"
    by auto
  from r It lt pd show ?thesis
    by (auto simp: I_def)
qed

text \<open>
  C9. In a run of \<open>train\<close> from a learner without a current checkpoint, as long
  as the passes done stay below \<open>save_every_niter\<close> every pass has put
  \<open>None\<close> on the checkpoint queue, and the evaluator's message variable and
  \<open>current_model_path\<close> are as they were.
\<close>

theorem republish_before_first_checkpoint:
  assumes "current_model_path s = None"
    and "\<not> raised (train cfg batches s)"
    and "passes_done (train cfg batches s) < save_every_niter cfg"
  shows "checkpoint_queue (run_state (train cfg batches s))
           = checkpoint_queue s @ replicate (nat (passes_done (train cfg batches s))) None
         \<and> eval_msg_val (run_state (train cfg batches s)) = eval_msg_val s
         \<and> current_model_path (run_state (train cfg batches s)) = None"
  using republish_loop[of "s\<lparr>train_iter := 0, cum_loss := Num 0, cum_examples := 0\<rparr>" cfg batches]
    assms
  by (simp add: train_def)

theorem republish_before_first_checkpoint_witness:
  "current_model_path demo_learner = None
   \<and> \<not> raised (train (demo_config\<lparr>save_every_niter := 3\<rparr>) [demo_input, demo_input] demo_learner)
   \<and> passes_done (train (demo_config\<lparr>save_every_niter := 3\<rparr>) [demo_input, demo_input] demo_learner)
        < save_every_niter (demo_config\<lparr>save_every_niter := 3\<rparr>)
   \<and> checkpoint_queue (run_state
        (train (demo_config\<lparr>save_every_niter := 3\<rparr>) [demo_input, demo_input] demo_learner))
       = [None, None]
   \<and> eval_msg_val (run_state
        (train (demo_config\<lparr>save_every_niter := 3\<rparr>) [demo_input, demo_input] demo_learner))
       = Some []"
  using republish_before_first_checkpoint[of demo_learner "demo_config\<lparr>save_every_niter := 3\<rparr>"
      "[demo_input, demo_input]"]
  by (simp add: train_def demo_defs step_defs Let_def)

section \<open>Optimizer calls\<close>

text \<open>
  The optimizer of the other parameters steps once in every pass whose counter is a
  multiple of \<open>gradient_accumulation_niter\<close> and in no other pass; both optimizers' gradients
  are zeroed in every pass.
\<close>

lemma other_step_loop:
  assumes "train_iter s = 0" and "trace s = []"
    and "\<not> raised (train_loop cfg inputs s)"
  shows "count_list (trace (run_state (train_loop cfg inputs s))) (i, OptStep Other)
           = (if 0 < i \<and> i \<le> passes_done (train_loop cfg inputs s)
                 \<and> i mod gradient_accumulation_niter cfg = 0 then 1 else 0)"
proof -
  have "count_list (trace (run_state (train_loop cfg inputs s))) (i, OptStep Other)
           = count_list (trace s) (i, OptStep Other)
             + (if train_iter s < i \<and> i \<le> passes_done (train_loop cfg inputs s)
                   \<and> i mod gradient_accumulation_niter cfg = 0
                then 1 else 0)"
    by (rule loop_count[where c = "\<lambda>i. i mod gradient_accumulation_niter cfg = 0"])
       (simp_all add: pass_count(2) begin_iteration_count assms(3))
  then show ?thesis using assms(1,2) by simp
qed

lemma other_step_every_k:
  assumes "trace s = []" and "\<not> raised (train cfg batches s)"
  shows "count_list (trace (run_state (train cfg batches s))) (i, OptStep Other)
           = (if 0 < i \<and> i \<le> passes_done (train cfg batches s)
                 \<and> i mod gradient_accumulation_niter cfg = 0 then 1 else 0)"
  using other_step_loop[of "s\<lparr>train_iter := 0, cum_loss := Num 0, cum_examples := 0\<rparr>"
      cfg batches i] assms
  by (simp add: train_def)

text \<open>
  C3. What the code does with \<open>gradient_accumulation_niter = 2\<close>, on the first
  two passes of a run: the optimizer steps once, in the second pass, but
  \<open>zero_grad\<close> is called on both optimizers at the start of the second pass too,
  between the backward pass of the first and that step, so the gradients of the first pass
  are cleared before they are used.
\<close>

theorem gradients_cleared_every_pass:
  "gradient_accumulation_niter accum_config = 2
   \<and> take 10 (trace (run_state (train accum_config demo_batches demo_learner)))
     = [(1, ZeroGrad Other), (1, ZeroGrad Bert), (1, Backward (Num (1 / 2))), (1, ClipGradNorm),
        (1, QueuePut None),
        (2, ZeroGrad Other), (2, ZeroGrad Bert), (2, Backward (Num (1 / 2))), (2, ClipGradNorm),
        (2, OptStep Other)]"
  by (simp add: accum_run) (simp add: demo_defs accum_config_def)

lemma freeze_boundary_loop:
  assumes "train_iter s = 0" and "trace s = []"
    and "\<not> raised (train_loop cfg inputs s)"
  shows "count_list (trace (run_state (train_loop cfg inputs s))) (i, OptStep Bert)
           = (if 0 < i \<and> i \<le> passes_done (train_loop cfg inputs s)
                 \<and> i mod gradient_accumulation_niter cfg = 0 \<and> freeze_bert_niter cfg < i
              then 1 else 0)
         \<and> count_list (trace (run_state (train_loop cfg inputs s))) (i, NewAdam)
           = (if 0 < i \<and> i \<le> passes_done (train_loop cfg inputs s)
                 \<and> i mod gradient_accumulation_niter cfg = 0 \<and> i = freeze_bert_niter cfg
              then 1 else 0)"
proof -
  have a: "count_list (trace (run_state (train_loop cfg inputs s))) (i, OptStep Bert)
           = count_list (trace s) (i, OptStep Bert)
             + (if train_iter s < i \<and> i \<le> passes_done (train_loop cfg inputs s)
                   \<and> (i mod gradient_accumulation_niter cfg = 0 \<and> freeze_bert_niter cfg < i)
                then 1 else 0)"
    by (rule loop_count[where c = "\<lambda>i. i mod gradient_accumulation_niter cfg = 0
                                      \<and> freeze_bert_niter cfg < i"])
       (simp_all add: pass_count(3) begin_iteration_count assms(3))
  have b: "count_list (trace (run_state (train_loop cfg inputs s))) (i, NewAdam)
           = count_list (trace s) (i, NewAdam)
             + (if train_iter s < i \<and> i \<le> passes_done (train_loop cfg inputs s)
                   \<and> (i mod gradient_accumulation_niter cfg = 0 \<and> i = freeze_bert_niter cfg)
                then 1 else 0)"
    by (rule loop_count[where c = "\<lambda>i. i mod gradient_accumulation_niter cfg = 0
                                      \<and> i = freeze_bert_niter cfg"])
       (simp_all add: pass_count(4) begin_iteration_count assms(3))
  show ?thesis using a b assms(1,2) by simp
qed

text \<open>
  C4. In a run of \<open>train\<close> that does not raise, for every step counter
  \<open>i\<close>, the BERT optimizer steps once in pass \<open>i\<close> when
  \<open>i\<close> is an accumulation boundary above \<open>freeze_bert_niter\<close> and
  never otherwise (so not at all up to the threshold), and the other optimizer is rebuilt
  once in pass \<open>i\<close> when \<open>i\<close> equals the threshold and is an
  accumulation boundary, and never otherwise.
\<close>

theorem freeze_boundary_calls:
  assumes "trace s = []" and "\<not> raised (train cfg batches s)"
  shows "count_list (trace (run_state (train cfg batches s))) (i, OptStep Bert)
           = (if 0 < i \<and> i \<le> passes_done (train cfg batches s)
                 \<and> i mod gradient_accumulation_niter cfg = 0 \<and> freeze_bert_niter cfg < i
              then 1 else 0)
         \<and> count_list (trace (run_state (train cfg batches s))) (i, NewAdam)
           = (if 0 < i \<and> i \<le> passes_done (train cfg batches s)
                 \<and> i mod gradient_accumulation_niter cfg = 0 \<and> i = freeze_bert_niter cfg
              then 1 else 0)"
  using freeze_boundary_loop[of "s\<lparr>train_iter := 0, cum_loss := Num 0, cum_examples := 0\<rparr>"
      cfg batches i] assms
  by (simp add: train_def)

theorem freeze_boundary_calls_witness:
  "trace demo_learner = []
   \<and> \<not> raised (train thaw_config demo_batches demo_learner)
   \<and> passes_done (train thaw_config demo_batches demo_learner) = 4
   \<and> count_list (trace (run_state (train thaw_config demo_batches demo_learner))) (2, NewAdam) = 1
   \<and> count_list (trace (run_state (train thaw_config demo_batches demo_learner))) (2, OptStep Bert) = 0
   \<and> count_list (trace (run_state (train thaw_config demo_batches demo_learner))) (4, OptStep Bert) = 1"
  using freeze_boundary_calls[of demo_learner thaw_config demo_batches 2]
    freeze_boundary_calls[of demo_learner thaw_config demo_batches 4]
  by (simp add: thaw_run) (simp add: demo_defs thaw_config_def)

theorem freeze_off_boundary_counterexample:
  "gradient_accumulation_niter freeze_config = 2 \<and> freeze_bert_niter freeze_config = 3
   \<and> \<not> raised (train freeze_config demo_batches demo_learner)
   \<and> passes_done (train freeze_config demo_batches demo_learner) = 4
   \<and> count_list (map snd (trace (run_state (train freeze_config demo_batches demo_learner)))) NewAdam = 0"
  by (simp add: freeze_run) (simp add: demo_defs freeze_config_def)

lemma clip_calls_loop:
  assumes "train_iter s = 0" and "trace s = []"
    and "\<not> raised (train_loop cfg inputs s)"
  shows "count_list (trace (run_state (train_loop cfg inputs s))) (i, ClipGradNorm)
           = (if 0 < i \<and> i \<le> passes_done (train_loop cfg inputs s) then 1 else 0)"
proof -
  have "count_list (trace (run_state (train_loop cfg inputs s))) (i, ClipGradNorm)
           = count_list (trace s) (i, ClipGradNorm)
             + (if train_iter s < i \<and> i \<le> passes_done (train_loop cfg inputs s) \<and> True
                then 1 else 0)"
    by (rule loop_count[where c = "\<lambda>i. True"])
       (simp_all add: pass_count(1) begin_iteration_count assms(3))
  then show ?thesis using assms(1,2) by simp
qed

text \<open>
  C7. In a run of \<open>train\<close> that does not raise, gradient-norm clipping is called
  exactly once in every pass that ran to its end, whatever
  \<open>gradient_accumulation_niter\<close> is, so also in the passes between two optimizer
  steps.
\<close>

theorem clip_every_pass:
  assumes "trace s = []" and "\<not> raised (train cfg batches s)"
  shows "count_list (trace (run_state (train cfg batches s))) (i, ClipGradNorm)
           = (if 0 < i \<and> i \<le> passes_done (train cfg batches s) then 1 else 0)"
  using clip_calls_loop[of "s\<lparr>train_iter := 0, cum_loss := Num 0, cum_examples := 0\<rparr>"
      cfg batches i] assms
  by (simp add: train_def)

theorem clip_every_pass_witness:
  "trace demo_learner = []
   \<and> \<not> raised (train accum_config demo_batches demo_learner)
   \<and> passes_done (train accum_config demo_batches demo_learner) = 4
   \<and> count_list (trace (run_state (train accum_config demo_batches demo_learner))) (3, ClipGradNorm) = 1
   \<and> count_list (trace (run_state (train accum_config demo_batches demo_learner))) (4, ClipGradNorm) = 1"
  using clip_every_pass[of demo_learner accum_config demo_batches 3]
    clip_every_pass[of demo_learner accum_config demo_batches 4]
  by (simp add: accum_run) (simp add: demo_defs accum_config_def)

theorem clip_between_steps_counterexample:
  "1 < gradient_accumulation_niter accum_config
   \<and> (1::int) mod gradient_accumulation_niter accum_config \<noteq> 0
   \<and> (1, ClipGradNorm) \<in> set (trace (run_state (train accum_config demo_batches demo_learner)))"
  by (simp add: accum_run) (simp add: demo_defs accum_config_def)

section \<open>The loss and the batch\<close>

text \<open>
  In exact arithmetic the loss of lines 125 to 131 is the weighted negative mean
  \<open>weighted_nll\<close>, and it is what the pass calls \<open>backward\<close> on. The source computes on
  float32 tensors: the rounding of the weights, of the products, of the mean and of the
  division, and overflow, are not represented here.
\<close>

lemma parser_loss_exact:
  assumes "train_samples inp \<noteq> []"
    and "agent inp (map trajectory (train_samples inp)) = Some lps"
    and "length lps = length (train_samples inp)"
  shows "parser_loss cfg lps (train_samples inp)
           = Some (Num (weighted_nll (gradient_accumulation_niter cfg) lps (train_samples inp)))
         \<and> (entropy_reg_weight cfg = 0 \<longrightarrow>
              (train_iter s + 1,
               Backward (Num (weighted_nll (gradient_accumulation_niter cfg) lps (train_samples inp))))
                \<in> set (trace (state_of (train_step cfg inp s))))"
proof (intro conjI impI)
  show l: "parser_loss cfg lps (train_samples inp)
           = Some (Num (weighted_nll (gradient_accumulation_niter cfg) lps (train_samples inp)))"
    using loss_formula[OF assms(1,3), of cfg] by (simp add: weighted_nll_def)
  assume e: "entropy_reg_weight cfg = 0"
  show "(train_iter s + 1,
         Backward (Num (weighted_nll (gradient_accumulation_niter cfg) lps (train_samples inp))))
          \<in> set (trace (state_of (train_step cfg inp s)))"
    using optimise_calls(1)[OF assms(2) l e, of "begin_iteration s"]
      iteration_body_state(2)[of cfg inp "begin_iteration s"]
    by (auto simp: train_step_def)
qed

text \<open>
  C5. A batch of zero samples is not rejected. The step counter is one higher after the pass
  whatever happens in it; and when the agent returns a tensor of at most one element for the
  empty batch and \<open>entropy_reg_weight\<close> is 0, the loss is NaN, the backward pass
  and the gradient clipping are called, and at an accumulation boundary the optimizer steps.
\<close>

theorem empty_batch_is_processed:
  assumes "train_samples inp = []"
  shows "train_iter (state_of (train_step cfg inp s)) = train_iter s + 1
         \<and> (\<forall>lps. agent inp [] = Some lps \<and> length lps \<le> 1 \<and> entropy_reg_weight cfg = 0 \<longrightarrow>
               (train_iter s + 1, Backward NaN) \<in> set (trace (state_of (train_step cfg inp s)))
               \<and> (train_iter s + 1, ClipGradNorm) \<in> set (trace (state_of (train_step cfg inp s)))
               \<and> (gradient_accumulation_niter cfg \<noteq> 0
                    \<and> (train_iter s + 1) mod gradient_accumulation_niter cfg = 0 \<longrightarrow>
                   (train_iter s + 1, OptStep Other)
                     \<in> set (trace (state_of (train_step cfg inp s)))))"
proof (intro conjI allI impI)
  show "train_iter (state_of (train_step cfg inp s)) = train_iter s + 1"
    by (simp add: train_step_def iteration_body_state(1))
next
  fix lps
  assume h: "agent inp [] = Some lps \<and> length lps \<le> 1 \<and> entropy_reg_weight cfg = 0"
  then have a: "agent inp (map trajectory (train_samples inp)) = Some lps"
    and l: "parser_loss cfg lps (train_samples inp) = Some NaN"
    and e: "entropy_reg_weight cfg = 0"
    using assms by (simp_all add: parser_loss_empty)
  note sub = iteration_body_state(2)[of cfg inp "begin_iteration s"]
  show "(train_iter s + 1, Backward NaN) \<in> set (trace (state_of (train_step cfg inp s)))"
    using optimise_calls(1)[OF a l e, of "begin_iteration s"] sub
    by (auto simp: train_step_def)
  show "(train_iter s + 1, ClipGradNorm) \<in> set (trace (state_of (train_step cfg inp s)))"
    using optimise_calls(2)[OF a l e, of "begin_iteration s"] sub
    by (auto simp: train_step_def)
  assume "gradient_accumulation_niter cfg \<noteq> 0
            \<and> (train_iter s + 1) mod gradient_accumulation_niter cfg = 0"
  then show "(train_iter s + 1, OptStep Other) \<in> set (trace (state_of (train_step cfg inp s)))"
    using optimise_calls(3)[OF a l e, of "begin_iteration s"] sub
    by (auto simp: train_step_def)
qed

theorem empty_batch_is_processed_witness:
  "train_samples empty_input = []
   \<and> agent empty_input [] = Some [] \<and> length ([] :: real list) \<le> 1
   \<and> entropy_reg_weight demo_config = 0
   \<and> gradient_accumulation_niter demo_config \<noteq> 0
   \<and> (train_iter demo_learner + 1) mod gradient_accumulation_niter demo_config = 0
   \<and> train_iter (state_of (train_step demo_config empty_input demo_learner)) = train_iter demo_learner + 1
   \<and> (1, Backward NaN) \<in> set (trace (state_of (train_step demo_config empty_input demo_learner)))
   \<and> (1, OptStep Other) \<in> set (trace (state_of (train_step demo_config empty_input demo_learner)))"
  using empty_batch_is_processed[of empty_input demo_config demo_learner]
  by (simp add: empty_step) (simp add: demo_defs empty_input_def)

theorem empty_batch_counterexample:
  "train_samples empty_input = []
   \<and> error_of (train_step demo_config empty_input demo_learner) = None
   \<and> train_iter demo_learner = 0
   \<and> train_iter (state_of (train_step demo_config empty_input demo_learner)) = 1
   \<and> (1, OptStep Other) \<in> set (trace (state_of (train_step demo_config empty_input demo_learner)))
   \<and> (1, OptStep Bert) \<in> set (trace (state_of (train_step demo_config empty_input demo_learner)))"
  by (simp add: empty_step) (simp add: demo_defs empty_input_def)

text \<open>
  C6. With a nonzero \<open>entropy_reg_weight\<close> a pass of the loop never skips the
  entropy term: it raises, in the state in which the batch arrived (no backward pass, no
  optimizer call, nothing published), and when the loss was computed the exception is the
  unbound name \<open>entropy\<close>.
\<close>

theorem entropy_weight_fails_fast:
  assumes "entropy_reg_weight cfg \<noteq> 0"
  shows "\<exists>e. train_step cfg inp s = Abort e (begin_iteration s)
           \<and> (\<forall>lps loss. agent inp (map trajectory (train_samples inp)) = Some lps
                 \<longrightarrow> parser_loss cfg lps (train_samples inp) = Some loss
                 \<longrightarrow> e = UnboundLocalError)"
  using assms
  by (auto simp: train_step_def iteration_body_def optimise_def split: option.splits)

theorem entropy_weight_fails_fast_witness:
  "entropy_reg_weight entropy_config \<noteq> 0
   \<and> train_step entropy_config demo_input demo_learner
       = Abort UnboundLocalError (begin_iteration demo_learner)"
  using entropy_weight_fails_fast[of entropy_config demo_input demo_learner]
  by (auto simp: entropy_config_def demo_defs parser_loss_def tensor_mul_def)

section \<open>The cache statistic\<close>

text \<open>
  C10. At a save boundary the pass divides \<open>num_entries\<close> by
  \<open>num_envs\<close> without a guard: with \<open>num_envs = 0\<close> the pass ends in
  an exception, and once the checkpoint has been published the outcome of the boundary is
  the \<open>ZeroDivisionError\<close> exactly when \<open>num_envs\<close> is 0, in the
  state the publication left.
\<close>

theorem cache_stat_division_unguarded:
  assumes "save_every_niter cfg \<noteq> 0"
    and "(train_iter s + 1) mod save_every_niter cfg = 0"
  shows "(snd (program_cache_stat inp) = 0 \<longrightarrow> error_of (train_step cfg inp s) \<noteq> None)
         \<and> (\<forall>t t1. train_iter t mod save_every_niter cfg = 0 \<and> cum_examples t \<noteq> 0
                \<and> shared_program_cache t
                \<and> update_model_to_actors cfg (save_ok inp) (train_iter t)
                     (t\<lparr>cum_loss := Num 0, cum_examples := 0\<rparr>) = Ok t1
              \<longrightarrow> publish cfg inp t
                    = (if snd (program_cache_stat inp) = 0 then Abort ZeroDivisionError t1
                       else Ok t1))"
proof (intro conjI allI impI)
  assume z: "snd (program_cache_stat inp) = 0"
  show "error_of (train_step cfg inp s) \<noteq> None"
  proof (cases "train_step cfg inp s")
    case (Abort e s')
    then show ?thesis by simp
  next
    case (Ok s')
    then have "iteration_body cfg inp (begin_iteration s) = Ok s'"
      by (simp add: train_step_def)
    then obtain s1 s2 where o: "optimise cfg inp (begin_iteration s) = Ok s1"
      and p: "publish cfg inp s1 = Ok s2"
      by (rule iteration_body_Ok)
    have "train_iter s1 mod save_every_niter cfg = 0"
      using optimise_Ok(1)[OF o] assms(2) by simp
    from publish_Ok(2)[OF p this] z show ?thesis by simp
  qed
next
  fix t t1
  assume h: "train_iter t mod save_every_niter cfg = 0 \<and> cum_examples t \<noteq> 0
                \<and> shared_program_cache t
                \<and> update_model_to_actors cfg (save_ok inp) (train_iter t)
                     (t\<lparr>cum_loss := Num 0, cum_examples := 0\<rparr>) = Ok t1"
  then have "shared_program_cache t1"
    using update_model_to_actors_Ok(9)[of cfg "save_ok inp" "train_iter t"
        "t\<lparr>cum_loss := Num 0, cum_examples := 0\<rparr>" t1] by simp
  then show "publish cfg inp t
          = (if snd (program_cache_stat inp) = 0 then Abort ZeroDivisionError t1 else Ok t1)"
    using h assms(1) by (simp add: publish_def)
qed

theorem cache_stat_division_unguarded_witness:
  "save_every_niter demo_config \<noteq> 0
   \<and> (train_iter (state_of (train_step demo_config demo_input demo_learner)) + 1)
        mod save_every_niter demo_config = 0
   \<and> snd (program_cache_stat no_envs_input) = 0
   \<and> error_of (train_step demo_config no_envs_input
        (state_of (train_step demo_config demo_input demo_learner))) = Some ZeroDivisionError
   \<and> current_model_path (state_of (train_step demo_config no_envs_input
        (state_of (train_step demo_config demo_input demo_learner))))
       = Some ''run/agent_state.iter2.bin''"
  using cache_stat_division_unguarded[of demo_config
      "state_of (train_step demo_config demo_input demo_learner)" no_envs_input]
  by (simp add: no_envs_step first_step_counter) (simp add: demo_defs no_envs_input_def)

end
